theory Spec2Isabelle
  imports Complex_Main "HOL-Library.AList"
begin

section \<open>Common Python values\<close>

text \<open>
  \<^verbatim>\<open>Decimal\<close> amounts and \<^verbatim>\<open>float\<close> readings are modelled by exact rationals.
  Python's \<^verbatim>\<open>Decimal\<close> arithmetic is exact as long as operands and results have at
  most 28 significant digits (the default context), and the order comparisons of
  finite floats are the comparisons of their values; NaN and infinities are not
  modelled. UUIDs are modelled by their string form.
\<close>

type_synonym decimal = rat
type_synonym float = rat
type_synonym uuid = string

datatype py_error = ValueError | KeyError | IndexError

text \<open>\<^verbatim>\<open>str(n)\<close> for a non-negative integer, and \<^verbatim>\<open>int(x)\<close> (truncation towards zero).\<close>

definition digit_char :: "nat \<Rightarrow> char" where
  "digit_char d = ''0123456789'' ! d"

function str_nat :: "nat \<Rightarrow> string" where
  "str_nat n = (if n < 10 then [digit_char n] else str_nat (n div 10) @ [digit_char (n mod 10)])"
  by pat_completeness auto
termination
  by (relation "measure id") auto

definition str_int :: "int \<Rightarrow> string" where
  "str_int i = (if i < 0 then CHR ''-'' # str_nat (nat (- i)) else str_nat (nat i))"

definition py_int :: "rat \<Rightarrow> int" where
  "py_int x = (if 0 \<le> x then \<lfloor>x\<rfloor> else \<lceil>x\<rceil>)"

text \<open>
  \<^verbatim>\<open>Decimal.quantize(Decimal("0.01"))\<close> under the default context: rounding to two
  fractional digits, ties to the even neighbour.
\<close>

definition round_half_even :: "rat \<Rightarrow> int" where
  "round_half_even x =
     (let f = \<lfloor>x\<rfloor>; d = x - of_int f
      in if d < 1 / 2 then f
         else if d > 1 / 2 then f + 1
         else if even f then f else f + 1)"

definition quantize_cent :: "decimal \<Rightarrow> decimal" where
  "quantize_cent x = of_int (round_half_even (x * 100)) / 100"

section \<open>Rake (commission) calculator: game_engine.py\<close>

datatype RakeLevel = SEMILLA | COMPETIDOR | PRO

fun RakeLevel_value :: "RakeLevel \<Rightarrow> string" where
  "RakeLevel_value SEMILLA = ''SEMILLA''"
| "RakeLevel_value COMPETIDOR = ''COMPETIDOR''"
| "RakeLevel_value PRO = ''PRO''"

record RakeConfig =
  level :: RakeLevel
  min_bet :: decimal
  max_bet :: decimal
  rate :: decimal

definition applies_to :: "RakeConfig \<Rightarrow> decimal \<Rightarrow> bool" where
  "applies_to cfg bet_amount \<longleftrightarrow> min_bet cfg \<le> bet_amount \<and> bet_amount \<le> max_bet cfg"

definition RAKE_TIERS :: "RakeConfig list" where
  "RAKE_TIERS =
     [\<lparr>level = SEMILLA, min_bet = 1, max_bet = 10, rate = 8 / 100\<rparr>,
      \<lparr>level = COMPETIDOR, min_bet = 11, max_bet = 50, rate = 6 / 100\<rparr>,
      \<lparr>level = PRO, min_bet = 51, max_bet = 999999, rate = 5 / 100\<rparr>]"

text \<open>
  The loop returns the first tier whose range holds the bet; when it falls through,
  the last tier (\<^verbatim>\<open>RAKE_TIERS[-1]\<close>) is returned.
\<close>

definition get_rake_tier :: "decimal \<Rightarrow> RakeConfig" where
  "get_rake_tier bet_amount =
     (case find (\<lambda>tier. applies_to tier bet_amount) RAKE_TIERS of
        Some tier \<Rightarrow> tier
      | None \<Rightarrow> last RAKE_TIERS)"

record fee_result =
  bet_per_player :: decimal
  fee_per_player :: decimal
  total_pot :: decimal
  total_fee :: decimal
  winner_prize :: decimal
  rake_rate :: decimal
  rake_level :: string

definition calculate_fee :: "decimal \<Rightarrow> int \<Rightarrow> fee_result" where
  "calculate_fee bet_amount num_players =
     (let tier = get_rake_tier bet_amount;
          fee_per_player = quantize_cent (bet_amount * rate tier);
          total_pot = bet_amount * of_int num_players;
          total_fee = fee_per_player * of_int num_players;
          winner_prize = total_pot - total_fee
      in \<lparr>bet_per_player = bet_amount,
          fee_per_player = fee_per_player,
          total_pot = total_pot,
          total_fee = total_fee,
          winner_prize = winner_prize,
          rake_rate = rate tier,
          rake_level = RakeLevel_value (level tier)\<rparr>)"

section \<open>Triple-entry ledger: game_engine.py\<close>

record LedgerEntry =
  entry_id :: string
  le_match_id :: string
  le_timestamp :: float
  debitor_id :: string
  creditor_id :: string
  debit_amount :: decimal
  credit_amount :: decimal
  rake_amount :: decimal
  treasury_id :: string
  debitor_balance_hash_before :: string
  debitor_balance_hash_after :: string
  creditor_balance_hash_before :: string
  creditor_balance_hash_after :: string
  status :: string

definition validate_balance_equation :: "LedgerEntry \<Rightarrow> bool" where
  "validate_balance_equation e \<longleftrightarrow> debit_amount e = credit_amount e + rake_amount e"

text \<open>
  The ledger object. \<^verbatim>\<open>pending_entries\<close> is a dict, kept as an association list with
  dict update and deletion.
\<close>

record TreasuryLedger =
  entries :: "LedgerEntry list"
  treasury_balance :: decimal
  pending_entries :: "(string \<times> LedgerEntry) list"

definition TreasuryLedger_init :: TreasuryLedger where
  "TreasuryLedger_init = \<lparr>entries = [], treasury_balance = 0, pending_entries = []\<rparr>"

text \<open>
  \<^verbatim>\<open>create_match_settlement\<close>. The clock reading \<open>now\<close> (\<^verbatim>\<open>time.time()\<close>) and the
  balance hash (\<^verbatim>\<open>_compute_balance_hash\<close>: SHA-256 of the printed user id and balance)
  are parameters. The result is the raised error, or the entry with the updated ledger.
\<close>

definition create_match_settlement ::
  "(string \<Rightarrow> decimal \<Rightarrow> string) \<Rightarrow> float \<Rightarrow> TreasuryLedger \<Rightarrow> string \<Rightarrow> string \<Rightarrow> string \<Rightarrow>
     decimal \<Rightarrow> decimal \<Rightarrow> decimal \<Rightarrow> py_error + (LedgerEntry \<times> TreasuryLedger)" where
  "create_match_settlement compute_balance_hash now ledger match_id winner_id loser_id
       bet_amount winner_balance_before loser_balance_before =
     (let rake_result = calculate_fee bet_amount 2;
          eid = ''LED-'' @ take 8 match_id @ ''-'' @ str_int (py_int now);
          debit = bet_amount;
          credit = winner_prize rake_result;
          rake = total_fee rake_result;
          loser_balance_after = loser_balance_before - debit;
          winner_balance_after = winner_balance_before + credit;
          entry = \<lparr>entry_id = eid,
                   le_match_id = match_id,
                   le_timestamp = now,
                   debitor_id = loser_id,
                   creditor_id = winner_id,
                   debit_amount = debit,
                   credit_amount = credit,
                   rake_amount = rake,
                   treasury_id = ''LK_TREASURY'',
                   debitor_balance_hash_before = compute_balance_hash loser_id loser_balance_before,
                   debitor_balance_hash_after = compute_balance_hash loser_id loser_balance_after,
                   creditor_balance_hash_before = compute_balance_hash winner_id winner_balance_before,
                   creditor_balance_hash_after = compute_balance_hash winner_id winner_balance_after,
                   status = ''PENDING''\<rparr>
      in if \<not> validate_balance_equation entry then Inl ValueError
         else Inr (entry, ledger\<lparr>pending_entries := AList.update eid entry (pending_entries ledger)\<rparr>))"

definition commit_entry :: "TreasuryLedger \<Rightarrow> string \<Rightarrow> bool \<times> TreasuryLedger" where
  "commit_entry ledger eid =
     (case map_of (pending_entries ledger) eid of
        None \<Rightarrow> (False, ledger)
      | Some entry \<Rightarrow>
          (True, \<lparr>entries = entries ledger @ [entry\<lparr>status := ''COMMITTED''\<rparr>],
                  treasury_balance = treasury_balance ledger + rake_amount entry,
                  pending_entries = AList.delete eid (pending_entries ledger)\<rparr>))"

definition rollback_entry :: "TreasuryLedger \<Rightarrow> string \<Rightarrow> bool \<times> TreasuryLedger" where
  "rollback_entry ledger eid =
     (case map_of (pending_entries ledger) eid of
        None \<Rightarrow> (False, ledger)
      | Some entry \<Rightarrow> (True, ledger\<lparr>pending_entries := AList.delete eid (pending_entries ledger)\<rparr>))"

section \<open>Provably fair dice: ludo_engine.py\<close>

record DiceRoll =
  roll_value :: int
  roll_server_seed :: string
  roll_client_seed :: string
  roll_nonce :: int
  roll_timestamp :: float
  hash_proof :: string

record ProvablyFairDice =
  server_seed :: string
  server_seed_hash :: string
  client_seeds :: "(string \<times> string) list"
  nonce :: int

text \<open>
  \<^verbatim>\<open>int(s, 16)\<close> on a string of hexadecimal digits. Python also accepts a sign, a
  \<^verbatim>\<open>0x\<close> prefix, underscores and surrounding blanks; a SHA-256 hex digest has none
  of them, and such strings are reported as \<^verbatim>\<open>ValueError\<close> here, as every string
  with a character that is no hexadecimal digit is.
\<close>

definition hex_digit_val :: "char \<Rightarrow> nat option" where
  "hex_digit_val c =
     (let n = (of_char c :: nat)
      in if 48 \<le> n \<and> n \<le> 57 then Some (n - 48)
         else if 97 \<le> n \<and> n \<le> 102 then Some (n - 87)
         else if 65 \<le> n \<and> n \<le> 70 then Some (n - 55)
         else None)"

fun parse_hex :: "nat \<Rightarrow> string \<Rightarrow> nat option" where
  "parse_hex acc [] = Some acc"
| "parse_hex acc (c # cs) =
     (case hex_digit_val c of None \<Rightarrow> None | Some d \<Rightarrow> parse_hex (16 * acc + d) cs)"

definition int_base16 :: "string \<Rightarrow> py_error + int" where
  "int_base16 s =
     (if s = [] then Inl ValueError
      else case parse_hex 0 s of None \<Rightarrow> Inl ValueError | Some n \<Rightarrow> Inr (int n))"

text \<open>
  The constructor; \<^verbatim>\<open>secrets.token_hex(32)\<close> is the parameter \<open>fresh_seed\<close>, and
  \<^verbatim>\<open>hashlib.sha256(s.encode()).hexdigest()\<close> is the parameter \<open>sha256_hex\<close> throughout.
\<close>

definition ProvablyFairDice_init :: "(string \<Rightarrow> string) \<Rightarrow> string \<Rightarrow> string option \<Rightarrow> ProvablyFairDice" where
  "ProvablyFairDice_init sha256_hex fresh_seed seed_arg =
     (let seed = (case seed_arg of None \<Rightarrow> fresh_seed | Some s \<Rightarrow> if s = [] then fresh_seed else s)
      in \<lparr>server_seed = seed, server_seed_hash = sha256_hex seed, client_seeds = [], nonce = 0\<rparr>)"

definition set_client_seed :: "ProvablyFairDice \<Rightarrow> string \<Rightarrow> string \<Rightarrow> ProvablyFairDice" where
  "set_client_seed d player_id seed = d\<lparr>client_seeds := AList.update player_id seed (client_seeds d)\<rparr>"

definition roll_combined :: "string \<Rightarrow> string \<Rightarrow> int \<Rightarrow> string" where
  "roll_combined sseed cseed n = sseed @ '':'' @ cseed @ '':'' @ str_int n"

definition roll :: "(string \<Rightarrow> string) \<Rightarrow> float \<Rightarrow> ProvablyFairDice \<Rightarrow> string \<Rightarrow>
    py_error + (DiceRoll \<times> ProvablyFairDice)" where
  "roll sha256_hex now d player_id =
     (let n = nonce d + 1;
          cseed = (case map_of (client_seeds d) player_id of Some s \<Rightarrow> s | None \<Rightarrow> ''default'');
          hash_result = sha256_hex (roll_combined (server_seed d) cseed n)
      in case int_base16 (take 8 hash_result) of
           Inl e \<Rightarrow> Inl e
         | Inr numeric_value \<Rightarrow>
             Inr (\<lparr>roll_value = numeric_value mod 6 + 1,
                   roll_server_seed = server_seed_hash d,
                   roll_client_seed = cseed,
                   roll_nonce = n,
                   roll_timestamp = now,
                   hash_proof = take 16 hash_result\<rparr>,
                  d\<lparr>nonce := n\<rparr>))"








section \<open>Ludo engine: ludo_engine.py\<close>

datatype PieceState = HOME | ACTIVE | SAFE_ZONE | FINISHED

datatype LudoGameState = WAITING | ROLLING | MOVING | COMPLETED | ABANDONED

datatype PlayerColor = RED | BLUE | GREEN | YELLOW

record LudoPiece =
  piece_id :: int
  owner :: PlayerColor
  piece_state :: PieceState
  position :: int
  safe_zone_pos :: int

record LudoPlayer =
  lp_user_id :: uuid
  color :: PlayerColor
  pieces :: "LudoPiece list"
  pieces_finished :: int
  captures_made :: int
  sixes_rolled :: int
  lp_is_connected :: bool
  last_action :: float

record LudoMove =
  move_id :: int
  move_player :: PlayerColor
  move_piece_id :: int
  dice_roll :: DiceRoll
  from_position :: int
  to_position :: int
  captured_piece :: "(PlayerColor \<times> int) option"
  entered_safe_zone :: bool
  finished :: bool
  move_timestamp :: float

record LudoEngine =
  ludo_match_id :: uuid
  ludo_state :: LudoGameState
  ludo_players :: "(uuid \<times> LudoPlayer) list"
  player_order :: "uuid list"
  dice :: ProvablyFairDice
  current_player_index :: nat
  current_roll :: "DiceRoll option"
  consecutive_sixes :: int
  can_roll_again :: bool
  moves_history :: "LudoMove list"
  move_counter :: int
  ludo_started_at :: float
  turn_started_at :: float
  winner :: "uuid option"
  rankings :: "uuid list"

definition BOARD_SIZE :: int where "BOARD_SIZE = 52"
definition HOME_STRETCH :: int where "HOME_STRETCH = 5"
definition PIECES_PER_PLAYER :: nat where "PIECES_PER_PLAYER = 4"
definition MAX_CONSECUTIVE_SIXES :: int where "MAX_CONSECUTIVE_SIXES = 3"
definition EXIT_ROLL :: int where "EXIT_ROLL = 6"

definition LudoPlayer_init :: "float \<Rightarrow> uuid \<Rightarrow> PlayerColor \<Rightarrow> LudoPlayer" where
  "LudoPlayer_init now uid c =
     \<lparr>lp_user_id = uid, color = c,
      pieces = map (\<lambda>i. \<lparr>piece_id = int i, owner = c, piece_state = HOME, position = - 1,
                         safe_zone_pos = - 1\<rparr>) [0..<PIECES_PER_PLAYER],
      pieces_finished = 0, captures_made = 0, sixes_rolled = 0, lp_is_connected = True,
      last_action = now\<rparr>"

text \<open>
  The constructor: the first four ids get the colours in order; a repeated id keeps its
  place in \<^verbatim>\<open>player_order\<close> and overwrites its entry in the \<^verbatim>\<open>players\<close> dict.
\<close>

fun add_players :: "float \<Rightarrow> (uuid \<times> PlayerColor) list \<Rightarrow> (uuid \<times> LudoPlayer) list \<Rightarrow> (uuid \<times> LudoPlayer) list" where
  "add_players now [] acc = acc"
| "add_players now ((uid, c) # rest) acc = add_players now rest (AList.update uid (LudoPlayer_init now uid c) acc)"

definition LudoEngine_init :: "(string \<Rightarrow> string) \<Rightarrow> string \<Rightarrow> float \<Rightarrow> uuid \<Rightarrow> uuid list \<Rightarrow> LudoEngine" where
  "LudoEngine_init sha256_hex fresh_seed now mid uids =
     \<lparr>ludo_match_id = mid,
      ludo_state = WAITING,
      ludo_players = add_players now (zip (take 4 uids) [RED, BLUE, GREEN, YELLOW]) [],
      player_order = take 4 uids,
      dice = ProvablyFairDice_init sha256_hex fresh_seed None,
      current_player_index = 0,
      current_roll = None,
      consecutive_sixes = 0,
      can_roll_again = False,
      moves_history = [],
      move_counter = 0,
      ludo_started_at = now,
      turn_started_at = now,
      winner = None,
      rankings = []\<rparr>"

definition current_user_id :: "LudoEngine \<Rightarrow> py_error + uuid" where
  "current_user_id g =
     (if current_player_index g < length (player_order g)
      then Inr (player_order g ! current_player_index g) else Inl IndexError)"

definition current_player :: "LudoEngine \<Rightarrow> py_error + LudoPlayer" where
  "current_player g =
     (case current_user_id g of
        Inl e \<Rightarrow> Inl e
      | Inr uid \<Rightarrow> (case map_of (ludo_players g) uid of None \<Rightarrow> Inl KeyError | Some p \<Rightarrow> Inr p))"

fun get_start_position :: "PlayerColor \<Rightarrow> int" where
  "get_start_position RED = 0"
| "get_start_position BLUE = 13"
| "get_start_position GREEN = 26"
| "get_start_position YELLOW = 39"

definition get_safe_zone_entry :: "PlayerColor \<Rightarrow> int" where
  "get_safe_zone_entry c = (get_start_position c + BOARD_SIZE - 1) mod BOARD_SIZE"

record move_info =
  mi_to :: int
  mi_action :: string

definition can_move_piece :: "LudoPiece \<Rightarrow> int \<Rightarrow> move_info option" where
  "can_move_piece piece dice_value =
     (if piece_state piece = HOME then
        (if dice_value = EXIT_ROLL
         then Some \<lparr>mi_to = get_start_position (owner piece), mi_action = ''exit''\<rparr>
         else None)
      else if piece_state piece = FINISHED then None
      else if piece_state piece = SAFE_ZONE then
        (let new_safe_pos = safe_zone_pos piece + dice_value
         in if new_safe_pos = HOME_STRETCH + 1 then Some \<lparr>mi_to = - 2, mi_action = ''finish''\<rparr>
            else if new_safe_pos > HOME_STRETCH + 1 then None
            else Some \<lparr>mi_to = new_safe_pos, mi_action = ''safe_move''\<rparr>)
      else
        (let new_pos = (position piece + dice_value) mod BOARD_SIZE;
             safe_zone_entry = get_safe_zone_entry (owner piece);
             steps_to_entry = (safe_zone_entry - position piece) mod BOARD_SIZE
         in if steps_to_entry < dice_value \<and> steps_to_entry \<ge> 0 then
              (let remaining = dice_value - steps_to_entry - 1
               in if remaining \<le> HOME_STRETCH then
                    (if remaining = HOME_STRETCH then Some \<lparr>mi_to = - 2, mi_action = ''finish''\<rparr>
                     else Some \<lparr>mi_to = remaining, mi_action = ''enter_safe''\<rparr>)
                  else None)
            else Some \<lparr>mi_to = new_pos, mi_action = ''move''\<rparr>))"

record available_move =
  am_piece_id :: int
  am_from :: int
  am_to :: int
  am_action :: string

definition get_available_moves :: "LudoEngine \<Rightarrow> int \<Rightarrow> py_error + available_move list" where
  "get_available_moves g dice_value =
     (case current_player g of
        Inl e \<Rightarrow> Inl e
      | Inr player \<Rightarrow>
          Inr (concat (map (\<lambda>piece.
                 case can_move_piece piece dice_value of
                   None \<Rightarrow> []
                 | Some mi \<Rightarrow> [\<lparr>am_piece_id = piece_id piece, am_from = position piece,
                                am_to = mi_to mi, am_action = mi_action mi\<rparr>]) (pieces player))))"

definition next_turn :: "float \<Rightarrow> LudoEngine \<Rightarrow> LudoEngine" where
  "next_turn now g =
     g\<lparr>current_player_index := (current_player_index g + 1) mod length (player_order g),
       current_roll := None,
       consecutive_sixes := 0,
       can_roll_again := False,
       ludo_state := ROLLING,
       turn_started_at := now\<rparr>"

text \<open>
  The first step of \<^verbatim>\<open>roll_dice\<close> after its checks: a client seed that is given and
  not empty is registered for the player.
\<close>

definition register_client_seed :: "ProvablyFairDice \<Rightarrow> uuid \<Rightarrow> string option \<Rightarrow> ProvablyFairDice" where
  "register_client_seed d uid client_seed =
     (case client_seed of
        None \<Rightarrow> d
      | Some s \<Rightarrow> if s = [] then d else set_client_seed d uid s)"

text \<open>The dict returned by \<^verbatim>\<open>roll_dice\<close>, by shape.\<close>

datatype roll_dice_result =
    RollError string
  | RollPenalty DiceRoll uuid
  | RollNoMoves DiceRoll uuid
  | RollMoves DiceRoll "available_move list" bool

text \<open>
  \<^verbatim>\<open>roll_dice\<close>: the returned dict and the engine after the call, or the exception
  that escapes. \<open>now\<close> stands for the clock readings of the call.
\<close>

definition roll_dice :: "(string \<Rightarrow> string) \<Rightarrow> float \<Rightarrow> LudoEngine \<Rightarrow> uuid \<Rightarrow> string option \<Rightarrow>
    py_error + (roll_dice_result \<times> LudoEngine)" where
  "roll_dice sha256_hex now g uid client_seed =
     (if ludo_state g \<noteq> ROLLING then Inr (RollError ''Cannot roll in current state'', g)
      else case current_user_id g of
        Inl e \<Rightarrow> Inl e
      | Inr cur \<Rightarrow>
          if uid \<noteq> cur then Inr (RollError ''Not your turn'', g)
          else
            (let d0 = register_client_seed (dice g) uid client_seed
             in case roll sha256_hex now d0 uid of
                  Inl e \<Rightarrow> Inl e
                | Inr (r, d1) \<Rightarrow>
                    (let g1 = g\<lparr>dice := d1, current_roll := Some r\<rparr>
                     in if roll_value r = 6 \<and> consecutive_sixes g1 + 1 \<ge> MAX_CONSECUTIVE_SIXES then
                          (let g2 = next_turn now (g1\<lparr>consecutive_sixes := consecutive_sixes g1 + 1\<rparr>)
                           in case current_user_id g2 of
                                Inl e \<Rightarrow> Inl e
                              | Inr nxt \<Rightarrow> Inr (RollPenalty r nxt, g2))
                        else
                          (let g2 = (if roll_value r = 6
                                     then g1\<lparr>consecutive_sixes := consecutive_sixes g1 + 1,
                                            can_roll_again := True\<rparr>
                                     else g1\<lparr>consecutive_sixes := 0, can_roll_again := False\<rparr>)
                           in case get_available_moves g2 (roll_value r) of
                                Inl e \<Rightarrow> Inl e
                              | Inr available_moves \<Rightarrow>
                                  if available_moves = [] then
                                    (let g3 = next_turn now g2
                                     in case current_user_id g3 of
                                          Inl e \<Rightarrow> Inl e
                                        | Inr nxt \<Rightarrow> Inr (RollNoMoves r nxt, g3))
                                  else Inr (RollMoves r available_moves (can_roll_again g2),
                                            g2\<lparr>ludo_state := MOVING\<rparr>)))))"

section \<open>Match rooms and their state machine: websocket_handler.py\<close>

datatype MatchState =
  MATCHMAKING | LOCKED | IN_PROGRESS | VALIDATION | SETTLEMENT | COMPLETED | DISPUTED | CANCELLED

record PlayerConnection =
  pc_user_id :: uuid
  sid :: string
  connected_at :: float
  pc_last_heartbeat :: float
  is_ready :: bool
  pc_is_connected :: bool
  ip_address :: string
  pc_device_fingerprint :: string
  escrow_confirmed :: bool
  balance_at_lock :: decimal

text \<open>
  The room. The move log and the seeds (\<^verbatim>\<open>moves_log\<close>, \<^verbatim>\<open>move_sequence\<close>,
  \<^verbatim>\<open>server_seed\<close>, \<^verbatim>\<open>client_seeds\<close>) are left out: none of the functions below reads
  or writes them. \<^verbatim>\<open>players\<close> is a dict in insertion order.
\<close>

record MatchRoom =
  match_id :: uuid
  game_type :: string
  bet_amount :: decimal
  state :: MatchState
  players :: "(uuid \<times> PlayerConnection) list"
  max_players :: int
  created_at :: float
  locked_at :: "float option"
  started_at :: "float option"
  session_id :: string
  initial_state_hash :: string
  is_bot_match :: bool
  ledger_entry_id :: "string option"

text \<open>The manager, without its matchmaking queues and locks.\<close>

record MatchManager =
  active_matches :: "(uuid \<times> MatchRoom) list"
  player_to_match :: "(uuid \<times> uuid) list"
  sid_to_user :: "(string \<times> uuid) list"

fun valid_transitions :: "MatchState \<Rightarrow> MatchState list" where
  "valid_transitions MATCHMAKING = [LOCKED, CANCELLED]"
| "valid_transitions LOCKED = [IN_PROGRESS, CANCELLED]"
| "valid_transitions IN_PROGRESS = [VALIDATION, DISPUTED]"
| "valid_transitions VALIDATION = [SETTLEMENT, DISPUTED]"
| "valid_transitions SETTLEMENT = [COMPLETED, DISPUTED]"
| "valid_transitions DISPUTED = [COMPLETED, CANCELLED]"
| "valid_transitions COMPLETED = []"
| "valid_transitions CANCELLED = []"

definition get_match :: "MatchManager \<Rightarrow> uuid \<Rightarrow> MatchRoom option" where
  "get_match m mid = map_of (active_matches m) mid"

text \<open>
  \<^verbatim>\<open>transition_state\<close>: the returned flag and the manager after the call. The room is
  updated in place, that is, under its key in \<^verbatim>\<open>active_matches\<close>.
\<close>

definition transition_state :: "float \<Rightarrow> MatchManager \<Rightarrow> uuid \<Rightarrow> MatchState \<Rightarrow> bool \<times> MatchManager" where
  "transition_state now m mid new_state =
     (case map_of (active_matches m) mid of
        None \<Rightarrow> (False, m)
      | Some room \<Rightarrow>
          if new_state \<notin> set (valid_transitions (state room)) then (False, m)
          else
            (let room1 = room\<lparr>state := new_state\<rparr>;
                 room2 = (if new_state = LOCKED then room1\<lparr>locked_at := Some now\<rparr>
                          else if new_state = IN_PROGRESS then room1\<lparr>started_at := Some now\<rparr>
                          else room1)
             in (True, m\<lparr>active_matches := AList.update mid room2 (active_matches m)\<rparr>)))"

definition cleanup_match :: "MatchManager \<Rightarrow> uuid \<Rightarrow> MatchManager" where
  "cleanup_match m mid =
     (case map_of (active_matches m) mid of
        None \<Rightarrow> m
      | Some room \<Rightarrow>
          \<lparr>active_matches = AList.delete mid (active_matches m),
           player_to_match = fold AList.delete (map fst (players room)) (player_to_match m),
           sid_to_user = fold AList.delete (map (\<lambda>(uid, pc). sid pc) (players room)) (sid_to_user m)\<rparr>)"

section \<open>The Ludo game-over handler: websocket_handler.py\<close>

text \<open>
  The handler works on three module-level objects: the match manager, the treasury ledger
  and the table of running Ludo games; the events it emits are collected.
\<close>

datatype event =
    ErrorEvent string
  | LudoGameOverEvent decimal decimal decimal string "string option"

record world =
  manager :: MatchManager
  ledger :: TreasuryLedger
  ludo_games :: "(uuid \<times> LudoEngine) list"
  emitted :: "event list"

text \<open>
  \<^verbatim>\<open>_settle_escrow\<close> as it stands in the source: it logs and returns \<^verbatim>\<open>True\<close>. The
  handler below takes the escrow step as a parameter, so that its failure branch can be
  exercised too.
\<close>

definition settle_escrow :: "uuid \<Rightarrow> uuid \<Rightarrow> uuid \<Rightarrow> decimal \<Rightarrow> decimal \<Rightarrow> bool" where
  "settle_escrow mid winner_id loser_id prize fee = True"

text \<open>
  The \<^verbatim>\<open>room\<close> argument is the object registered in the manager under \<^verbatim>\<open>match_id\<close>,
  when there is one (the callers obtain it with \<^verbatim>\<open>get_match\<close>): what
  \<^verbatim>\<open>transition_state\<close> writes through the manager is read back into the local room,
  and a write to the local room is stored under the key.
\<close>

definition sync_room :: "MatchManager \<Rightarrow> uuid \<Rightarrow> MatchRoom \<Rightarrow> MatchRoom" where
  "sync_room m mid room = (case map_of (active_matches m) mid of Some r \<Rightarrow> r | None \<Rightarrow> room)"

definition store_room :: "MatchManager \<Rightarrow> uuid \<Rightarrow> MatchRoom \<Rightarrow> MatchManager" where
  "store_room m mid room =
     (case map_of (active_matches m) mid of
        Some r \<Rightarrow> m\<lparr>active_matches := AList.update mid room (active_matches m)\<rparr>
      | None \<Rightarrow> m)"

text \<open>
  The \<^verbatim>\<open>try\<close> block of the handler with its \<^verbatim>\<open>except Exception\<close> clause: the ledger,
  the manager and the room after it, and the events emitted by the clause.
\<close>

definition settlement_try ::
  "(uuid \<Rightarrow> uuid \<Rightarrow> uuid \<Rightarrow> decimal \<Rightarrow> decimal \<Rightarrow> bool) \<Rightarrow> (string \<Rightarrow> decimal \<Rightarrow> string) \<Rightarrow> float \<Rightarrow>
     TreasuryLedger \<Rightarrow> MatchManager \<Rightarrow> uuid \<Rightarrow> MatchRoom \<Rightarrow> uuid \<Rightarrow> uuid \<Rightarrow> decimal \<Rightarrow> decimal \<Rightarrow> fee_result \<Rightarrow>
     TreasuryLedger \<times> MatchManager \<times> MatchRoom \<times> event list" where
  "settlement_try escrow compute_balance_hash now l m mid room winner_id loser_id
       winner_balance loser_balance rake_result =
     (case create_match_settlement compute_balance_hash now l mid winner_id loser_id
             (bet_amount room) winner_balance loser_balance of
        Inl e \<Rightarrow> (l, m, room, [ErrorEvent ''SETTLEMENT_ERROR''])
      | Inr (ledger_entry, l1) \<Rightarrow>
          (let room1 = room\<lparr>ledger_entry_id := Some (entry_id ledger_entry)\<rparr>;
               m1 = store_room m mid room1
           in if escrow mid winner_id loser_id (winner_prize rake_result) (fee_per_player rake_result)
              then (snd (commit_entry l1 (entry_id ledger_entry)), m1, room1, [])
              else (snd (rollback_entry l1 (entry_id ledger_entry)), m1, room1,
                    [ErrorEvent ''SETTLEMENT_ERROR''])))"

text \<open>
  \<^verbatim>\<open>_handle_ludo_game_over\<close>; \<open>winner\<close> is the parsed \<^verbatim>\<open>result['winner']\<close>. The
  result is the exception that escapes, or the objects after the call together with the
  room object, which the final clean-up removes from the manager.
\<close>

definition handle_ludo_game_over ::
  "(uuid \<Rightarrow> uuid \<Rightarrow> uuid \<Rightarrow> decimal \<Rightarrow> decimal \<Rightarrow> bool) \<Rightarrow> (string \<Rightarrow> decimal \<Rightarrow> string) \<Rightarrow> float \<Rightarrow>
     world \<Rightarrow> uuid \<Rightarrow> MatchRoom \<Rightarrow> uuid option \<Rightarrow> py_error + (world \<times> MatchRoom)" where
  "handle_ludo_game_over escrow compute_balance_hash now w mid room winner_id =
     (let m1 = snd (transition_state now (manager w) mid SETTLEMENT);
          room1 = sync_room m1 mid room;
          rake_result = calculate_fee (bet_amount room1) 2;
          player_ids = map fst (players room1);
          settled =
            (case winner_id of
               None \<Rightarrow> Inr (ledger w, m1, room1, [])
             | Some wid \<Rightarrow>
                 if length player_ids = 2 then
                   (let loser_id = (if player_ids ! 1 = wid then player_ids ! 0 else player_ids ! 1)
                    in case map_of (players room1) wid of
                         None \<Rightarrow> Inl KeyError
                       | Some wp \<Rightarrow>
                           (case map_of (players room1) loser_id of
                              None \<Rightarrow> Inl KeyError
                            | Some lp \<Rightarrow>
                                Inr (settlement_try escrow compute_balance_hash now (ledger w) m1 mid
                                       room1 wid loser_id (balance_at_lock wp) (balance_at_lock lp)
                                       rake_result)))
                 else Inr (ledger w, m1, room1, []))
      in case settled of
           Inl e \<Rightarrow> Inl e
         | Inr (l2, m2, room2, evs) \<Rightarrow>
             (let game_over = LudoGameOverEvent (total_pot rake_result) (total_fee rake_result)
                                (winner_prize rake_result) (rake_level rake_result)
                                (ledger_entry_id room2);
                  m3 = snd (transition_state now m2 mid COMPLETED);
                  room3 = sync_room m3 mid room2
              in Inr (\<lparr>manager = cleanup_match m3 mid,
                        ledger = l2,
                        ludo_games = AList.delete mid (ludo_games w),
                        emitted = emitted w @ evs @ [game_over]\<rparr>,
                      room3)))"

section \<open>Jitter detector: jitter_detector.py\<close>

definition LATENCY_SPIKE_THRESHOLD :: float where "LATENCY_SPIKE_THRESHOLD = 500"
definition JITTER_THRESHOLD_STD :: float where "JITTER_THRESHOLD_STD = 5 / 2"
definition MAX_SPIKES_BEFORE_FLAG :: nat where "MAX_SPIKES_BEFORE_FLAG = 3"
definition SPIKE_WINDOW :: float where "SPIKE_WINDOW = 60"

datatype ConnectionQuality = EXCELLENT | GOOD | FAIR | POOR | CRITICAL

datatype DisconnectType = GENUINE | SUSPICIOUS | LAG_SWITCH | MASS_OUTAGE

record HeartbeatSample =
  hs_timestamp :: float
  client_timestamp :: float
  round_trip_time :: float
  sequence_number :: int
  game_state :: string

record LatencyProfile =
  prof_user_id :: uuid
  baseline_rtt :: float
  baseline_std :: float
  current_rtt :: float
  samples :: "HeartbeatSample list"
  spike_timestamps :: "float list"
  connection_quality :: ConnectionQuality
  is_flagged :: bool
  flag_reason :: string
  missed_heartbeats :: int
  last_heartbeat :: float
  spikes_during_critical :: int
  total_critical_moments :: int

record jitter_details =
  d_rtt :: float
  d_baseline_rtt :: float
  d_deviation :: float
  d_spike_count :: nat
  d_connection_quality :: ConnectionQuality
  d_critical_spike_ratio :: float

datatype analysis_details = SamplesCollected nat | Details jitter_details

record JitterAnalysis =
  ja_user_id :: uuid
  ja_timestamp :: float
  current_jitter :: float
  jitter_score :: float
  latency_trend :: string
  is_suspicious :: bool
  disconnect_type :: DisconnectType
  details :: analysis_details
  recommended_action :: string

text \<open>\<^verbatim>\<open>str.upper()\<close>, on ASCII letters.\<close>

definition upper_char :: "char \<Rightarrow> char" where
  "upper_char c =
     (case map_of (zip ''abcdefghijklmnopqrstuvwxyz'' ''ABCDEFGHIJKLMNOPQRSTUVWXYZ'') c of
        Some u \<Rightarrow> u
      | None \<Rightarrow> c)"

definition is_critical_moment :: "string \<Rightarrow> bool" where
  "is_critical_moment gs \<longleftrightarrow>
     map upper_char gs \<in> set [''SHOOTING'', ''DEFENDING'', ''PENALTY'', ''MATCH_POINT'',
                              ''FINAL_MOVE'', ''WINNING_POSITION'', ''LOSING_POSITION'']"

definition calculate_jitter_score :: "LatencyProfile \<Rightarrow> float \<Rightarrow> float" where
  "calculate_jitter_score profile normalized_dev =
     (let score0 = 0;
          score1 = score0 + min 30 (\<bar>normalized_dev\<bar> * 10);
          spike_factor = of_nat (length (spike_timestamps profile)) * 5;
          score2 = score1 + min 30 spike_factor;
          score3 = (if total_critical_moments profile > 0
                    then score2 + of_int (spikes_during_critical profile)
                                    / of_int (total_critical_moments profile) * 40
                    else score2)
      in min 100 score3)"

definition classify_connection :: "float \<Rightarrow> ConnectionQuality" where
  "classify_connection rtt =
     (if rtt < 50 then EXCELLENT
      else if rtt < 100 then GOOD
      else if rtt < 200 then FAIR
      else if rtt < 500 then POOR
      else CRITICAL)"

text \<open>\<^verbatim>\<open>statistics.mean\<close> on a non-empty list, and the slices \<^verbatim>\<open>xs[-10:]\<close>, \<^verbatim>\<open>xs[-20:-10]\<close>.\<close>

definition mean :: "float list \<Rightarrow> float" where
  "mean xs = sum_list xs / of_nat (length xs)"

definition slice_last10 :: "'a list \<Rightarrow> 'a list" where
  "slice_last10 xs = drop (length xs - 10) xs"

definition slice_last20_to_last10 :: "'a list \<Rightarrow> 'a list" where
  "slice_last20_to_last10 xs =
     take ((length xs - 10) - (length xs - 20)) (drop (length xs - 20) xs)"

definition calculate_trend :: "LatencyProfile \<Rightarrow> string" where
  "calculate_trend profile =
     (if length (samples profile) < 5 then ''INSUFFICIENT_DATA''
      else
        (let recent = map round_trip_time (slice_last10 (samples profile));
             older = map round_trip_time (slice_last20_to_last10 (samples profile))
         in if older = [] then ''ESTABLISHING''
            else
              (let diff = mean recent - mean older;
                   threshold = baseline_std profile * (1 / 2)
               in if \<bar>diff\<bar> < threshold then ''STABLE''
                  else if diff > 0 then ''INCREASING''
                  else ''DECREASING'')))"

text \<open>
  The two local values of \<^verbatim>\<open>_analyze_jitter\<close> that decide whether a sample is a spike.
\<close>

definition normalized_deviation :: "LatencyProfile \<Rightarrow> HeartbeatSample \<Rightarrow> float" where
  "normalized_deviation profile sample =
     (round_trip_time sample - baseline_rtt profile) / (baseline_std profile + 1)"

definition is_spike :: "LatencyProfile \<Rightarrow> HeartbeatSample \<Rightarrow> bool" where
  "is_spike profile sample \<longleftrightarrow>
     round_trip_time sample > LATENCY_SPIKE_THRESHOLD \<or>
     normalized_deviation profile sample > JITTER_THRESHOLD_STD"

text \<open>The profile after the spike bookkeeping of \<^verbatim>\<open>_analyze_jitter\<close>.\<close>

definition record_spike :: "LatencyProfile \<Rightarrow> HeartbeatSample \<Rightarrow> LatencyProfile" where
  "record_spike profile sample =
     (let current_time = hs_timestamp sample
      in if is_spike profile sample then
           (let cutoff = current_time - SPIKE_WINDOW;
                p1 = profile\<lparr>spike_timestamps :=
                        filter (\<lambda>ts. ts > cutoff) (spike_timestamps profile @ [current_time])\<rparr>
            in if is_critical_moment (game_state sample)
               then p1\<lparr>spikes_during_critical := spikes_during_critical p1 + 1,
                       total_critical_moments := total_critical_moments p1 + 1\<rparr>
               else p1)
         else if is_critical_moment (game_state sample)
         then profile\<lparr>total_critical_moments := total_critical_moments profile + 1\<rparr>
         else profile)"

text \<open>
  \<^verbatim>\<open>_analyze_jitter\<close>: the analysis and the profile after the call. The baseline itself
  (\<^verbatim>\<open>_update_baseline\<close>, a trimmed mean and standard deviation) is an input here.
\<close>

definition analyze_jitter :: "LatencyProfile \<Rightarrow> HeartbeatSample \<Rightarrow> JitterAnalysis \<times> LatencyProfile" where
  "analyze_jitter profile sample =
     (let current_time = hs_timestamp sample
      in if baseline_rtt profile = 0 then
           (\<lparr>ja_user_id = prof_user_id profile, ja_timestamp = current_time, current_jitter = 0,
             jitter_score = 0, latency_trend = ''ESTABLISHING_BASELINE'', is_suspicious = False,
             disconnect_type = GENUINE, details = SamplesCollected (length (samples profile)),
             recommended_action = []\<rparr>, profile)
         else
           (let deviation = round_trip_time sample - baseline_rtt profile;
                nd = normalized_deviation profile sample;
                p1 = record_spike profile sample;
                score = calculate_jitter_score p1 nd;
                p2 = p1\<lparr>connection_quality := classify_connection (round_trip_time sample)\<rparr>;
                trend = calculate_trend p2;
                many_spikes = (length (spike_timestamps p2) \<ge> MAX_SPIKES_BEFORE_FLAG);
                pattern = (total_critical_moments p2 \<ge> 5 \<and>
                           of_int (spikes_during_critical p2) / of_int (total_critical_moments p2)
                             > (6 / 10 :: float));
                suspicious = (many_spikes \<or> pattern);
                flag_text = (if pattern then ''Suspicious spike timing pattern''
                             else if many_spikes then ''Multiple latency spikes detected'' else []);
                final_score = (if pattern then min 100 (score + 30) else score);
                p3 = (if suspicious \<and> \<not> is_flagged p2
                      then p2\<lparr>is_flagged := True, flag_reason := flag_text\<rparr> else p2)
            in (\<lparr>ja_user_id = prof_user_id profile, ja_timestamp = current_time,
                 current_jitter = nd, jitter_score = final_score, latency_trend = trend,
                 is_suspicious = suspicious, disconnect_type = GENUINE,
                 details = Details
                   \<lparr>d_rtt = round_trip_time sample, d_baseline_rtt = baseline_rtt p3,
                    d_deviation = deviation, d_spike_count = length (spike_timestamps p3),
                    d_connection_quality = connection_quality p3,
                    d_critical_spike_ratio =
                      of_int (spikes_during_critical p3) / of_int (max 1 (total_critical_moments p3))\<rparr>,
                 recommended_action = (if suspicious then ''MONITOR'' else [])\<rparr>, p3)))"

text \<open>
  The score as the specification words it, for comparison with
  \<^verbatim>\<open>_calculate_jitter_score\<close>: clamp(0, |dev| * 10 + spikes * 5 +
  (crit_spikes / max(1, crit_total)) * 40, 100).
\<close>

definition clamp :: "float \<Rightarrow> float \<Rightarrow> float \<Rightarrow> float" where
  "clamp lo x hi = max lo (min hi x)"

definition spec_jitter_score :: "float \<Rightarrow> nat \<Rightarrow> int \<Rightarrow> int \<Rightarrow> float" where
  "spec_jitter_score dev spikes crit_spikes crit_total =
     clamp 0 (\<bar>dev\<bar> * 10 + of_nat spikes * 5
              + of_int crit_spikes / of_int (max 1 crit_total) * 40) 100"

text \<open>The number of spike timestamps of a profile within the 60 s window before an instant.\<close>

definition spikes_in_window :: "LatencyProfile \<Rightarrow> float \<Rightarrow> nat" where
  "spikes_in_window profile t = length (filter (\<lambda>ts. ts > t - SPIKE_WINDOW) (spike_timestamps profile))"

section \<open>LK-Shield: security.py\<close>

definition MIN_TRUST_SCORE_FOR_MATCH :: int where "MIN_TRUST_SCORE_FOR_MATCH = 30"
definition MIN_TRUST_SCORE_FOR_HIGH_STAKES :: int where "MIN_TRUST_SCORE_FOR_HIGH_STAKES = 70"
definition MAX_MATCH_REQUESTS_PER_MINUTE :: nat where "MAX_MATCH_REQUESTS_PER_MINUTE = 10"
definition MAX_FAILED_MATCHES_PER_HOUR :: nat where "MAX_FAILED_MATCHES_PER_HOUR = 5"
definition HIGH_STAKE_THRESHOLD :: decimal where "HIGH_STAKE_THRESHOLD = 100"
definition SUSPICIOUS_WIN_RATE :: float where "SUSPICIOUS_WIN_RATE = 85 / 100"
definition MIN_MATCHES_FOR_WIN_RATE :: int where "MIN_MATCHES_FOR_WIN_RATE = 20"

datatype ShieldVerdict =
    APPROVED | DENIED_LOW_TRUST | DENIED_COLLUSION | DENIED_RATE_LIMIT
  | DENIED_QUARANTINE | DENIED_FROZEN | DENIED_KYC | REVIEW_REQUIRED

record PlayerSecurityProfile =
  user_id :: uuid
  trust_score :: int
  trust_level :: string
  kyc_status :: string
  is_frozen :: bool
  device_fingerprint :: "string option"
  current_ip :: string
  lkoins_balance :: decimal
  recent_matches :: int
  recent_wins :: int
  recent_disconnects :: int
  last_match_timestamp :: "float option"
  in_quarantine :: bool
  quarantine_until :: "float option"

record ShieldCheckResult =
  verdict :: ShieldVerdict
  player_id :: uuid
  can_proceed :: bool
  reason :: string
  risk_score :: int
  flags :: "string list"
  shield_recommended_action :: "string option"
  retry_after :: "int option"

text \<open>
  The in-memory store, without the encounter history (used by the collusion check only).
  Sets of user ids are duplicate-free lists; instants (\<^verbatim>\<open>datetime\<close>, \<^verbatim>\<open>time.time()\<close>)
  are seconds.
\<close>

record SecurityMemoryStore =
  ip_to_users :: "(string \<times> uuid list) list"
  device_to_users :: "(string \<times> uuid list) list"
  match_requests :: "(uuid \<times> float list) list"
  failed_matches :: "(uuid \<times> float list) list"
  user_ips :: "(uuid \<times> (string \<times> float) list) list"
  quarantine :: "(uuid \<times> float) list"

definition get_or_empty :: "('k \<times> 'v list) list \<Rightarrow> 'k \<Rightarrow> 'v list" where
  "get_or_empty d k = (case map_of d k of Some v \<Rightarrow> v | None \<Rightarrow> [])"

definition record_ip_usage :: "float \<Rightarrow> SecurityMemoryStore \<Rightarrow> uuid \<Rightarrow> string \<Rightarrow> SecurityMemoryStore" where
  "record_ip_usage now st uid ip =
     (let cutoff = now - 86400
      in st\<lparr>ip_to_users := AList.update ip (List.insert uid (get_or_empty (ip_to_users st) ip)) (ip_to_users st),
            user_ips := AList.update uid
                          (filter (\<lambda>(i, ts). ts > cutoff) (get_or_empty (user_ips st) uid @ [(ip, now)]))
                          (user_ips st)\<rparr>)"

definition record_device_usage :: "SecurityMemoryStore \<Rightarrow> uuid \<Rightarrow> string \<Rightarrow> SecurityMemoryStore" where
  "record_device_usage st uid device_fp =
     (if device_fp \<noteq> []
      then st\<lparr>device_to_users :=
                AList.update device_fp (List.insert uid (get_or_empty (device_to_users st) device_fp))
                  (device_to_users st)\<rparr>
      else st)"

definition record_match_request :: "float \<Rightarrow> SecurityMemoryStore \<Rightarrow> uuid \<Rightarrow> SecurityMemoryStore" where
  "record_match_request now st uid =
     (let cutoff = now - 60
      in st\<lparr>match_requests := AList.update uid
              (filter (\<lambda>ts. ts > cutoff) (get_or_empty (match_requests st) uid @ [now]))
              (match_requests st)\<rparr>)"

definition get_match_request_count :: "float \<Rightarrow> SecurityMemoryStore \<Rightarrow> uuid \<Rightarrow> nat" where
  "get_match_request_count now st uid =
     length (filter (\<lambda>ts. ts > now - 60) (get_or_empty (match_requests st) uid))"

definition get_failed_match_count :: "float \<Rightarrow> SecurityMemoryStore \<Rightarrow> uuid \<Rightarrow> nat" where
  "get_failed_match_count now st uid =
     length (filter (\<lambda>ts. ts > now - 3600) (get_or_empty (failed_matches st) uid))"

text \<open>\<^verbatim>\<open>is_in_quarantine\<close>: the returned pair and the store (an expired entry is deleted).\<close>

definition is_in_quarantine ::
  "float \<Rightarrow> SecurityMemoryStore \<Rightarrow> uuid \<Rightarrow> (bool \<times> float option) \<times> SecurityMemoryStore" where
  "is_in_quarantine utcnow st uid =
     (case map_of (quarantine st) uid of
        None \<Rightarrow> ((False, None), st)
      | Some until \<Rightarrow>
          if utcnow > until then ((False, None), st\<lparr>quarantine := AList.delete uid (quarantine st)\<rparr>)
          else ((True, Some until), st))"

text \<open>
  \<^verbatim>\<open>verify_player\<close>: the result and the store after the call. \<open>utcnow\<close> and \<open>now\<close>
  stand for the readings of \<^verbatim>\<open>datetime.utcnow()\<close> and \<^verbatim>\<open>time.time()\<close> during the call.
  The accented letters of the Spanish messages are written without their accents.
\<close>

definition verify_player ::
  "float \<Rightarrow> float \<Rightarrow> SecurityMemoryStore \<Rightarrow> PlayerSecurityProfile \<Rightarrow> decimal \<Rightarrow>
     ShieldCheckResult \<times> SecurityMemoryStore" where
  "verify_player utcnow now st profile bet =
     (if is_frozen profile then
        (\<lparr>verdict = DENIED_FROZEN, player_id = user_id profile, can_proceed = False,
          reason = ''Cuenta congelada por seguridad'', risk_score = 100, flags = [''ACCOUNT_FROZEN''],
          shield_recommended_action = None, retry_after = None\<rparr>, st)
      else
        (let ((quarantined, until), st1) = is_in_quarantine utcnow st (user_id profile)
         in if quarantined then
              (\<lparr>verdict = DENIED_QUARANTINE, player_id = user_id profile, can_proceed = False,
                reason = ''Cuenta en cuarentena temporal'', risk_score = 0, flags = [''IN_QUARANTINE''],
                shield_recommended_action = None,
                retry_after = map_option (\<lambda>u. py_int (u - utcnow)) until\<rparr>, st1)
            else if trust_score profile < MIN_TRUST_SCORE_FOR_MATCH then
              (\<lparr>verdict = DENIED_LOW_TRUST, player_id = user_id profile, can_proceed = False,
                reason = ''Trust Score muy bajo: '' @ str_int (trust_score profile),
                risk_score = 40, flags = [''LOW_TRUST_SCORE''],
                shield_recommended_action = Some ''Mejorar comportamiento para recuperar confianza'',
                retry_after = None\<rparr>, st1)
            else
              (let (risk1, flags1) =
                     (if trust_level profile = ''RED'' then (30, [''RED_FLAG_ACCOUNT''])
                      else if trust_level profile = ''YELLOW'' then (15, [''YELLOW_FLAG_ACCOUNT''])
                      else (0, []))
               in if bet \<ge> HIGH_STAKE_THRESHOLD \<and> kyc_status profile \<noteq> ''VERIFIED'' then
                    (\<lparr>verdict = DENIED_KYC, player_id = user_id profile, can_proceed = False,
                      reason = ''KYC requerido para apuestas altas'', risk_score = 50,
                      flags = [''HIGH_STAKE_NO_KYC''],
                      shield_recommended_action = Some ''Completar verificacion de identidad'',
                      retry_after = None\<rparr>, st1)
                  else
                    (let (risk2, flags2) =
                           (if bet \<ge> HIGH_STAKE_THRESHOLD
                               \<and> trust_score profile < MIN_TRUST_SCORE_FOR_HIGH_STAKES
                            then (risk1 + 20, flags1 @ [''LOW_TRUST_HIGH_STAKE''])
                            else (risk1, flags1));
                         st2 = record_match_request now st1 (user_id profile);
                         request_count = get_match_request_count now st2 (user_id profile)
                     in if request_count > MAX_MATCH_REQUESTS_PER_MINUTE then
                          (\<lparr>verdict = DENIED_RATE_LIMIT, player_id = user_id profile,
                            can_proceed = False, reason = ''Demasiadas solicitudes de partida'',
                            risk_score = 0, flags = [''RATE_LIMITED''],
                            shield_recommended_action = None, retry_after = Some 60\<rparr>, st2)
                        else
                          (let failed_count = get_failed_match_count now st2 (user_id profile);
                               (risk3, flags3) =
                                 (if failed_count \<ge> MAX_FAILED_MATCHES_PER_HOUR
                                  then (risk2 + 25, flags2 @ [''MANY_FAILED_MATCHES''])
                                  else (risk2, flags2));
                               st3 = record_ip_usage now st2 (user_id profile) (current_ip profile);
                               st4 = (case device_fingerprint profile of
                                        None \<Rightarrow> st3
                                      | Some fp \<Rightarrow> record_device_usage st3 (user_id profile) fp);
                               (risk4, flags4) =
                                 (if recent_matches profile \<ge> MIN_MATCHES_FOR_WIN_RATE
                                     \<and> of_int (recent_wins profile) / of_int (recent_matches profile)
                                         \<ge> SUSPICIOUS_WIN_RATE
                                  then (risk3 + 20, flags3 @ [''SUSPICIOUS_WIN_RATE''])
                                  else (risk3, flags3));
                               (risk5, flags5) =
                                 (if recent_disconnects profile \<ge> 3
                                  then (risk4 + 15, flags4 @ [''FREQUENT_DISCONNECTS''])
                                  else (risk4, flags4))
                           in if risk5 \<ge> 70 then
                                (\<lparr>verdict = REVIEW_REQUIRED, player_id = user_id profile,
                                  can_proceed = False, reason = ''Perfil requiere revision manual'',
                                  risk_score = risk5, flags = flags5,
                                  shield_recommended_action = Some ''Esperar aprobacion de administrador'',
                                  retry_after = None\<rparr>, st4)
                              else
                                (\<lparr>verdict = APPROVED, player_id = user_id profile,
                                  can_proceed = True, reason = ''Verificacion exitosa'',
                                  risk_score = risk5, flags = flags5,
                                  shield_recommended_action = None, retry_after = None\<rparr>, st4))))))"

section \<open>Example data\<close>

text \<open>
  A stand-in for SHA-256 with the shape of a hex digest, for running the dice on concrete
  inputs: its first eight digits read 5 on a string of odd length and 0 otherwise.
\<close>

definition example_sha256_hex :: "string \<Rightarrow> string" where
  "example_sha256_hex s =
     (if odd (length s) then ''00000005'' @ ''00000000000000000000000000000000000000000000000000000000''
      else ''00000000'' @ ''00000000000000000000000000000000000000000000000000000000'')"

definition example_dice :: ProvablyFairDice where
  "example_dice = \<lparr>server_seed = ''s'', server_seed_hash = example_sha256_hex ''s'',
                    client_seeds = [], nonce = 2\<rparr>"

text \<open>A two-player game in which player A has rolled two sixes and rolls again.\<close>

definition example_engine :: LudoEngine where
  "example_engine =
     (LudoEngine_init example_sha256_hex ''s'' 0 ''match-0001'' [''A'', ''B''])
       \<lparr>ludo_state := ROLLING, consecutive_sixes := 2, dice := example_dice\<rparr>"

definition example_roll :: DiceRoll where
  "example_roll =
     \<lparr>roll_value = 6, roll_server_seed = example_sha256_hex ''s'', roll_client_seed = ''default'',
      roll_nonce = 3, roll_timestamp = 7, hash_proof = ''0000000500000000''\<rparr>"

text \<open>A room of two players A and B with a bet of 25, registered in a manager.\<close>

definition demo_connection :: "uuid \<Rightarrow> PlayerConnection" where
  "demo_connection uid =
     \<lparr>pc_user_id = uid, sid = ''sid-'' @ uid, connected_at = 0, pc_last_heartbeat = 0,
      is_ready = True, pc_is_connected = True, ip_address = ''10.0.0.1'',
      pc_device_fingerprint = [], escrow_confirmed = True, balance_at_lock = 100\<rparr>"

definition demo_room :: "MatchState \<Rightarrow> MatchRoom" where
  "demo_room st =
     \<lparr>match_id = ''match-0001'', game_type = ''LUDO'', bet_amount = 25, state = st,
      players = [(''A'', demo_connection ''A''), (''B'', demo_connection ''B'')],
      max_players = 2, created_at = 0, locked_at = Some 1, started_at = Some 2,
      session_id = ''session'', initial_state_hash = ''hash'', is_bot_match = False,
      ledger_entry_id = None\<rparr>"

definition demo_manager :: "MatchState \<Rightarrow> MatchManager" where
  "demo_manager st =
     \<lparr>active_matches = [(''match-0001'', demo_room st)],
      player_to_match = [(''A'', ''match-0001''), (''B'', ''match-0001'')],
      sid_to_user = [(''sid-A'', ''A''), (''sid-B'', ''B'')]\<rparr>"

definition demo_world :: "MatchState \<Rightarrow> world" where
  "demo_world st =
     \<lparr>manager = demo_manager st, ledger = TreasuryLedger_init, ludo_games = [], emitted = []\<rparr>"

text \<open>A latency profile with a given baseline and spike list, and a heartbeat sample.\<close>

definition demo_latency_profile :: "float \<Rightarrow> float \<Rightarrow> float list \<Rightarrow> LatencyProfile" where
  "demo_latency_profile base std spikes =
     \<lparr>prof_user_id = ''A'', baseline_rtt = base, baseline_std = std, current_rtt = base,
      samples = [], spike_timestamps = spikes, connection_quality = GOOD, is_flagged = False,
      flag_reason = [], missed_heartbeats = 0, last_heartbeat = 0, spikes_during_critical = 0,
      total_critical_moments = 0\<rparr>"

definition demo_sample :: "float \<Rightarrow> HeartbeatSample" where
  "demo_sample rtt =
     \<lparr>hs_timestamp = 1000, client_timestamp = 1000 - rtt / 1000, round_trip_time = rtt,
      sequence_number = 1, game_state = []\<rparr>"

text \<open>A security profile with a given trust score, and the store of a fresh server.\<close>

definition demo_security_profile :: "int \<Rightarrow> PlayerSecurityProfile" where
  "demo_security_profile ts =
     \<lparr>user_id = ''A'', trust_score = ts, trust_level = ''GREEN'', kyc_status = ''PENDING'',
      is_frozen = False, device_fingerprint = None, current_ip = ''10.0.0.1'',
      lkoins_balance = 100, recent_matches = 0, recent_wins = 0, recent_disconnects = 0,
      last_match_timestamp = None, in_quarantine = False, quarantine_until = None\<rparr>"

definition empty_store :: SecurityMemoryStore where
  "empty_store =
     \<lparr>ip_to_users = [], device_to_users = [], match_requests = [], failed_matches = [],
      user_ips = [], quarantine = []\<rparr>"

section \<open>Properties of the rake calculator\<close>



lemma get_rake_tier_cases:
  "get_rake_tier b =
     (if 1 \<le> b \<and> b \<le> 10 then RAKE_TIERS ! 0
      else if 11 \<le> b \<and> b \<le> 50 then RAKE_TIERS ! 1
      else RAKE_TIERS ! 2)"
  by (simp add: get_rake_tier_def RAKE_TIERS_def applies_to_def)







section \<open>Properties of the ledger\<close>

text \<open>
  The entry built by \<^verbatim>\<open>create_match_settlement\<close> debits one stake and credits prize
  plus rake, which is the whole pot of two stakes: its own balance check fails for every
  bet other than zero.
\<close>

lemma create_match_settlement_raises:
  assumes "bet \<noteq> 0"
  shows "create_match_settlement h now l mid w lo bet wb lb = Inl ValueError"
proof -
  have "winner_prize (calculate_fee bet 2) + total_fee (calculate_fee bet 2) = 2 * bet"
    by (simp add: calculate_fee_def Let_def)
  with assms show ?thesis
    by (simp add: create_match_settlement_def validate_balance_equation_def Let_def)
qed

text \<open>
  Claim C1 says that \<^verbatim>\<open>create_match_settlement\<close> returns a pending entry with
  debit = credit + rake and debit = 2 times the bet, without raising. On the code, the
  call for winner A, loser B and bet 25 raises \<^verbatim>\<open>ValueError\<close>, whatever the ledger,
  the clock and the balance hash are.
\<close>

theorem create_match_settlement_bet_25_raises:
  "create_match_settlement h now l mid ''A'' ''B'' 25 100 100 = Inl ValueError"
  by (rule create_match_settlement_raises) simp

section \<open>Properties of the dice\<close>










section \<open>Properties of the Ludo engine\<close>

lemma example_roll_eq:
  "roll example_sha256_hex 7 (register_client_seed (dice example_engine) ''A'' None) ''A''
   = Inr (example_roll, example_dice\<lparr>nonce := 3\<rparr>)"
  by (simp add: roll_def register_client_seed_def example_engine_def example_dice_def
      example_roll_def roll_combined_def str_int_def digit_char_def example_sha256_hex_def
      int_base16_def hex_digit_val_def Let_def)

text \<open>
  Claim C8. In state rolling, when the roll of the current player is a 6 and two
  consecutive sixes are already counted, \<^verbatim>\<open>roll_dice\<close> reports the penalty and the
  turn is forfeited: the turn index moves to the next player, the players with their
  pieces are unchanged, nothing is appended to the move history, the counter of
  consecutive sixes is reset and the game is in state rolling.
\<close>

theorem three_sixes_forfeit_turn:
  assumes "ludo_state g = ROLLING"
    and "current_user_id g = Inr uid"
    and "roll sha256_hex now (register_client_seed (dice g) uid client_seed) uid = Inr (r, d1)"
    and "roll_value r = 6"
    and "consecutive_sixes g = 2"
  shows "\<exists>nxt g'. roll_dice sha256_hex now g uid client_seed = Inr (RollPenalty r nxt, g')
      \<and> current_player_index g' = (current_player_index g + 1) mod length (player_order g)
      \<and> current_user_id g' = Inr nxt
      \<and> ludo_players g' = ludo_players g
      \<and> moves_history g' = moves_history g
      \<and> move_counter g' = move_counter g
      \<and> consecutive_sixes g' = 0
      \<and> ludo_state g' = ROLLING
      \<and> current_roll g' = None
      \<and> \<not> can_roll_again g'"
proof -
  from assms(2) have idx: "current_player_index g < length (player_order g)"
    by (auto simp: current_user_id_def split: if_splits)
  then have pos: "0 < length (player_order g)" by linarith
  define g' where "g' = next_turn now (g\<lparr>dice := d1, current_roll := Some r,
      consecutive_sixes := consecutive_sixes g + 1\<rparr>)"
  have nidx: "current_player_index g' = (current_player_index g + 1) mod length (player_order g)"
    by (simp add: g'_def next_turn_def)
  have po: "player_order g' = player_order g"
    by (simp add: g'_def next_turn_def)
  from pos nidx po have "current_player_index g' < length (player_order g')"
    by simp
  then have cur: "current_user_id g' = Inr (player_order g' ! current_player_index g')"
    by (simp add: current_user_id_def)
  have run: "roll_dice sha256_hex now g uid client_seed
      = Inr (RollPenalty r (player_order g' ! current_player_index g'), g')"
    using assms cur
    by (simp add: roll_dice_def Let_def MAX_CONSECUTIVE_SIXES_def g'_def)
  have rest: "ludo_players g' = ludo_players g" "moves_history g' = moves_history g"
    "move_counter g' = move_counter g" "consecutive_sixes g' = 0" "ludo_state g' = ROLLING"
    "current_roll g' = None" "\<not> can_roll_again g'"
    by (simp_all add: g'_def next_turn_def)
  from run nidx cur rest show ?thesis by blast
qed


theorem three_sixes_forfeit_turn_witness:
  "ludo_state example_engine = ROLLING
   \<and> current_user_id example_engine = Inr ''A''
   \<and> roll_value example_roll = 6
   \<and> consecutive_sixes example_engine = 2
   \<and> (\<exists>nxt g'. roll_dice example_sha256_hex 7 example_engine ''A'' None
                   = Inr (RollPenalty example_roll nxt, g')
        \<and> current_player_index g' = 1
        \<and> ludo_players g' = ludo_players example_engine
        \<and> moves_history g' = []
        \<and> consecutive_sixes g' = 0
        \<and> ludo_state g' = ROLLING)"
proof -
  have a: "ludo_state example_engine = ROLLING"
    by (simp add: example_engine_def)
  have b: "current_user_id example_engine = Inr ''A''"
    by (simp add: example_engine_def LudoEngine_init_def current_user_id_def)
  have c: "roll_value example_roll = 6"
    by (simp add: example_roll_def)
  have d: "consecutive_sixes example_engine = 2"
    by (simp add: example_engine_def)
  have e: "player_order example_engine = [''A'', ''B'']" "current_player_index example_engine = 0"
    "moves_history example_engine = []"
    by (simp_all add: example_engine_def LudoEngine_init_def)
  from three_sixes_forfeit_turn [OF a b example_roll_eq c d]
  obtain nxt g' where g': "roll_dice example_sha256_hex 7 example_engine ''A'' None
        = Inr (RollPenalty example_roll nxt, g')"
      "current_player_index g' = (current_player_index example_engine + 1) mod length (player_order example_engine)"
      "ludo_players g' = ludo_players example_engine"
      "moves_history g' = moves_history example_engine"
      "consecutive_sixes g' = 0" "ludo_state g' = ROLLING"
    by blast
  from g'(2) e have i1: "current_player_index g' = 1" by simp
  from a b c d g'(1) i1 g'(3) g'(4) e(3) g'(5) g'(6) show ?thesis
    by (intro conjI exI [of _ nxt] exI [of _ g']) simp_all
qed


section \<open>Properties of the room state machine\<close>

lemma map_of_update_same: "map_of (AList.update k v al) k = Some v"
  by (simp add: update_conv')

text \<open>
  Claim C5. \<^verbatim>\<open>transition_state\<close> returns \<^verbatim>\<open>True\<close> exactly for the twelve listed
  transitions, and then the room is in the new state; for every other request, among
  them every transition out of completed or cancelled, it returns \<^verbatim>\<open>False\<close> and
  leaves the manager, hence the room's state, unchanged. A match id without a room gives
  \<^verbatim>\<open>False\<close> too.
\<close>

theorem transition_state_fsm:
  "(get_match m mid = None \<longrightarrow> transition_state now m mid ns = (False, m))
   \<and> (\<forall>room. get_match m mid = Some room \<longrightarrow>
        (fst (transition_state now m mid ns) \<longleftrightarrow>
           (state room, ns) \<in>
             {(MATCHMAKING, LOCKED), (MATCHMAKING, CANCELLED),
              (LOCKED, IN_PROGRESS), (LOCKED, CANCELLED),
              (IN_PROGRESS, VALIDATION), (IN_PROGRESS, DISPUTED),
              (VALIDATION, SETTLEMENT), (VALIDATION, DISPUTED),
              (SETTLEMENT, COMPLETED), (SETTLEMENT, DISPUTED),
              (DISPUTED, COMPLETED), (DISPUTED, CANCELLED)})
        \<and> (fst (transition_state now m mid ns) \<longrightarrow>
             map_option state (get_match (snd (transition_state now m mid ns)) mid) = Some ns)
        \<and> (\<not> fst (transition_state now m mid ns) \<longrightarrow> snd (transition_state now m mid ns) = m))"
proof (intro conjI allI impI)
  assume "get_match m mid = None"
  then show "transition_state now m mid ns = (False, m)"
    by (simp add: transition_state_def get_match_def)
next
  fix room
  assume r: "get_match m mid = Some room"
  show "fst (transition_state now m mid ns) \<longleftrightarrow>
           (state room, ns) \<in>
             {(MATCHMAKING, LOCKED), (MATCHMAKING, CANCELLED),
              (LOCKED, IN_PROGRESS), (LOCKED, CANCELLED),
              (IN_PROGRESS, VALIDATION), (IN_PROGRESS, DISPUTED),
              (VALIDATION, SETTLEMENT), (VALIDATION, DISPUTED),
              (SETTLEMENT, COMPLETED), (SETTLEMENT, DISPUTED),
              (DISPUTED, COMPLETED), (DISPUTED, CANCELLED)}"
    using r by (cases "state room"; cases ns; simp add: transition_state_def get_match_def Let_def)
next
  fix room
  assume r: "get_match m mid = Some room" and ok: "fst (transition_state now m mid ns)"
  then show "map_option state (get_match (snd (transition_state now m mid ns)) mid) = Some ns"
    by (auto simp: transition_state_def get_match_def Let_def map_of_update_same split: if_splits)
next
  fix room
  assume r: "get_match m mid = Some room" and ok: "\<not> fst (transition_state now m mid ns)"
  then show "snd (transition_state now m mid ns) = m"
    by (auto simp: transition_state_def get_match_def Let_def split: if_splits)
qed

theorem transition_state_fsm_witness:
  "get_match (demo_manager SETTLEMENT) ''match-0001'' = Some (demo_room SETTLEMENT)
   \<and> fst (transition_state 5 (demo_manager SETTLEMENT) ''match-0001'' COMPLETED)
   \<and> map_option state (get_match (snd (transition_state 5 (demo_manager SETTLEMENT) ''match-0001'' COMPLETED))
        ''match-0001'') = Some COMPLETED
   \<and> get_match (demo_manager COMPLETED) ''match-0001'' = Some (demo_room COMPLETED)
   \<and> \<not> fst (transition_state 5 (demo_manager COMPLETED) ''match-0001'' DISPUTED)
   \<and> snd (transition_state 5 (demo_manager COMPLETED) ''match-0001'' DISPUTED) = demo_manager COMPLETED"
proof -
  have g1: "get_match (demo_manager SETTLEMENT) ''match-0001'' = Some (demo_room SETTLEMENT)"
    by (simp add: get_match_def demo_manager_def)
  have g2: "get_match (demo_manager COMPLETED) ''match-0001'' = Some (demo_room COMPLETED)"
    by (simp add: get_match_def demo_manager_def)
  have s1: "state (demo_room SETTLEMENT) = SETTLEMENT" "state (demo_room COMPLETED) = COMPLETED"
    by (simp_all add: demo_room_def)
  from transition_state_fsm [of "demo_manager SETTLEMENT" "''match-0001''" 5 COMPLETED] g1 s1
  have a: "fst (transition_state 5 (demo_manager SETTLEMENT) ''match-0001'' COMPLETED)"
    by simp
  with transition_state_fsm [of "demo_manager SETTLEMENT" "''match-0001''" 5 COMPLETED] g1
  have b: "map_option state (get_match (snd (transition_state 5 (demo_manager SETTLEMENT) ''match-0001'' COMPLETED))
        ''match-0001'') = Some COMPLETED"
    by blast
  from transition_state_fsm [of "demo_manager COMPLETED" "''match-0001''" 5 DISPUTED] g2 s1
  have c: "\<not> fst (transition_state 5 (demo_manager COMPLETED) ''match-0001'' DISPUTED)"
    by simp
  with transition_state_fsm [of "demo_manager COMPLETED" "''match-0001''" 5 DISPUTED] g2
  have d: "snd (transition_state 5 (demo_manager COMPLETED) ''match-0001'' DISPUTED) = demo_manager COMPLETED"
    by blast
  from g1 g2 a b c d show ?thesis by blast
qed

section \<open>Properties of the game-over handler\<close>

text \<open>
  Whatever the escrow step answers and whether or not the ledger entry could be created,
  the handler ends with the transition to completed: a registered two-player room that
  enters the handler in state validation, settlement or disputed leaves it completed.
\<close>

lemma handler_completes:
  assumes reg: "map_of (active_matches (manager w)) mid = Some room"
    and st: "state room = VALIDATION \<or> state room = SETTLEMENT \<or> state room = DISPUTED"
    and pl: "players room = [(a, pa), (b, pb)]"
    and ab: "a \<noteq> b"
  shows "\<exists>w' room'. handle_ludo_game_over escrow h now w mid room (Some a) = Inr (w', room')
           \<and> state room' = COMPLETED"
  using assms
  by (auto simp: handle_ludo_game_over_def settlement_try_def transition_state_def sync_room_def
      store_room_def Let_def map_of_update_same commit_entry_def rollback_entry_def
      split: sum.splits prod.splits option.splits if_splits)


text \<open>
  Claim C2 says that a room whose settlement fails stays in state settlement and is not
  moved to completed by the game-over handler. On the code, for the room of players A and
  B with bet 25 in state validation and winner A, creating the ledger entry raises, the
  handler reports \<^verbatim>\<open>SETTLEMENT_ERROR\<close>, commits nothing to the ledger, and still moves
  the room to completed and removes it from the manager.
\<close>

theorem game_over_completes_after_failed_settlement:
  "handle_ludo_game_over settle_escrow h now (demo_world VALIDATION) ''match-0001''
      (demo_room VALIDATION) (Some ''A'')
   = Inr (\<lparr>manager = \<lparr>active_matches = [], player_to_match = [], sid_to_user = []\<rparr>,
           ledger = TreasuryLedger_init,
           ludo_games = [],
           emitted = [ErrorEvent ''SETTLEMENT_ERROR'',
                      LudoGameOverEvent 50 3 47 ''COMPETIDOR'' None]\<rparr>,
          demo_room COMPLETED)"
  by (simp add: handle_ludo_game_over_def settlement_try_def create_match_settlement_raises
      transition_state_def sync_room_def store_room_def cleanup_match_def
      demo_world_def demo_manager_def demo_room_def demo_connection_def Let_def
      calculate_fee_def get_rake_tier_cases RAKE_TIERS_def quantize_cent_def round_half_even_def)


section \<open>Properties of the shield\<close>

text \<open>
  Claim C9. For a profile that is not frozen and not in quarantine, \<^verbatim>\<open>verify_player\<close>
  returns the verdict denied for low trust, with \<^verbatim>\<open>can_proceed\<close> false, if and only if
  the trust score is below 30: 29 is denied, 30 is not.
\<close>

theorem verify_player_low_trust_iff:
  assumes "\<not> is_frozen profile"
    and "\<not> fst (fst (is_in_quarantine utcnow st (user_id profile)))"
  shows "(verdict (fst (verify_player utcnow now st profile bet)) = DENIED_LOW_TRUST
            \<and> \<not> can_proceed (fst (verify_player utcnow now st profile bet))
          \<longleftrightarrow> trust_score profile < 30)
       \<and> (verdict (fst (verify_player utcnow now st profile bet)) = DENIED_LOW_TRUST
          \<longleftrightarrow> trust_score profile < 30)"
proof -
  obtain q u st1 where iq: "is_in_quarantine utcnow st (user_id profile) = ((q, u), st1)"
    by (metis surj_pair)
  with assms(2) have q: "\<not> q" by simp
  show ?thesis
    using assms(1) q
    by (simp add: verify_player_def iq Let_def MIN_TRUST_SCORE_FOR_MATCH_def split: prod.splits)
qed

theorem verify_player_low_trust_iff_witness:
  "\<not> is_frozen (demo_security_profile 30)
   \<and> \<not> fst (fst (is_in_quarantine 0 empty_store (user_id (demo_security_profile 30))))
   \<and> verdict (fst (verify_player 0 0 empty_store (demo_security_profile 30) 25)) \<noteq> DENIED_LOW_TRUST
   \<and> \<not> is_frozen (demo_security_profile 29)
   \<and> \<not> fst (fst (is_in_quarantine 0 empty_store (user_id (demo_security_profile 29))))
   \<and> verdict (fst (verify_player 0 0 empty_store (demo_security_profile 29) 25)) = DENIED_LOW_TRUST
   \<and> \<not> can_proceed (fst (verify_player 0 0 empty_store (demo_security_profile 29) 25))"
proof -
  have f: "\<not> is_frozen (demo_security_profile ts)" for ts
    by (simp add: demo_security_profile_def)
  have q: "\<not> fst (fst (is_in_quarantine 0 empty_store (user_id (demo_security_profile ts))))" for ts
    by (simp add: is_in_quarantine_def empty_store_def)
  have t: "trust_score (demo_security_profile ts) = ts" for ts
    by (simp add: demo_security_profile_def)
  from verify_player_low_trust_iff [OF f [of 30] q [of 30], of 0 25] t [of 30]
  have a: "verdict (fst (verify_player 0 0 empty_store (demo_security_profile 30) 25)) \<noteq> DENIED_LOW_TRUST"
    by simp
  from verify_player_low_trust_iff [OF f [of 29] q [of 29], of 0 25] t [of 29]
  have b: "verdict (fst (verify_player 0 0 empty_store (demo_security_profile 29) 25)) = DENIED_LOW_TRUST
     \<and> \<not> can_proceed (fst (verify_player 0 0 empty_store (demo_security_profile 29) 25))"
    by simp
  from f q a b show ?thesis by blast
qed

text \<open>With trust score 30, a pending KYC and a bet of 25 the fresh store approves.\<close>

lemma approved_at_30:
  "verdict (fst (verify_player 0 0 empty_store (demo_security_profile 30) 25)) = APPROVED
   \<and> can_proceed (fst (verify_player 0 0 empty_store (demo_security_profile 30) 25))"
  by (simp add: verify_player_def is_in_quarantine_def empty_store_def demo_security_profile_def
      Let_def MIN_TRUST_SCORE_FOR_MATCH_def HIGH_STAKE_THRESHOLD_def record_match_request_def
      get_match_request_count_def get_or_empty_def MAX_MATCH_REQUESTS_PER_MINUTE_def
      get_failed_match_count_def MAX_FAILED_MATCHES_PER_HOUR_def MIN_MATCHES_FOR_WIN_RATE_def
      record_ip_usage_def)

section \<open>Properties of the jitter detector\<close>

lemma analyze_jitter_spikes:
  assumes "baseline_rtt p \<noteq> 0"
  shows "spike_timestamps (snd (analyze_jitter p s)) = spike_timestamps (record_spike p s)"
    and "spikes_during_critical (snd (analyze_jitter p s)) = spikes_during_critical (record_spike p s)"
    and "total_critical_moments (snd (analyze_jitter p s)) = total_critical_moments (record_spike p s)"
  using assms by (simp_all add: analyze_jitter_def Let_def)

text \<open>
  Claim C6 says that, with a baseline established, a sample with an RTT of exactly 500 ms
  is a spike, and so is a sample with a normalised deviation of exactly 2.5. On the code
  neither is: with baseline 490 and deviation 10 a sample at 500 ms is no spike, and with
  baseline 100 and deviation 9 a sample at 125 ms (normalised deviation 2.5) is no spike;
  no spike timestamp is recorded.
\<close>

theorem spike_boundary_counterexample:
  "baseline_rtt (demo_latency_profile 490 10 []) \<noteq> 0
   \<and> round_trip_time (demo_sample 500) = 500
   \<and> \<not> is_spike (demo_latency_profile 490 10 []) (demo_sample 500)
   \<and> spike_timestamps (snd (analyze_jitter (demo_latency_profile 490 10 []) (demo_sample 500))) = []
   \<and> baseline_rtt (demo_latency_profile 100 9 []) \<noteq> 0
   \<and> normalized_deviation (demo_latency_profile 100 9 []) (demo_sample 125) = 5 / 2
   \<and> \<not> is_spike (demo_latency_profile 100 9 []) (demo_sample 125)
   \<and> spike_timestamps (snd (analyze_jitter (demo_latency_profile 100 9 []) (demo_sample 125))) = []"
  by (simp add: analyze_jitter_spikes record_spike_def is_spike_def normalized_deviation_def
      demo_latency_profile_def demo_sample_def LATENCY_SPIKE_THRESHOLD_def JITTER_THRESHOLD_STD_def
      is_critical_moment_def Let_def)

text \<open>
  Claim C6, amended. Both thresholds are strict: a sample is a spike if and only if its
  RTT is above 500 ms or its normalised deviation is above 2.5. A sample at exactly
  500 ms whose normalised deviation is at most 2.5 is no spike, and neither is a sample
  with normalised deviation exactly 2.5 and an RTT of at most 500 ms. With a baseline
  established, \<^verbatim>\<open>_analyze_jitter\<close> records a spike timestamp exactly for a spike.
\<close>

theorem spike_iff_strictly_above_thresholds:
  "(is_spike p s \<longleftrightarrow>
      round_trip_time s > 500 \<or> (round_trip_time s - baseline_rtt p) / (baseline_std p + 1) > 5 / 2)
   \<and> (round_trip_time s = 500 \<and> normalized_deviation p s \<le> 5 / 2 \<longrightarrow> \<not> is_spike p s)
   \<and> (normalized_deviation p s = 5 / 2 \<and> round_trip_time s \<le> 500 \<longrightarrow> \<not> is_spike p s)
   \<and> (baseline_rtt p \<noteq> 0 \<longrightarrow>
        spike_timestamps (snd (analyze_jitter p s)) =
          (if is_spike p s
           then filter (\<lambda>ts. ts > hs_timestamp s - 60) (spike_timestamps p @ [hs_timestamp s])
           else spike_timestamps p))"
proof -
  have a: "is_spike p s \<longleftrightarrow>
      round_trip_time s > 500 \<or> (round_trip_time s - baseline_rtt p) / (baseline_std p + 1) > 5 / 2"
    by (simp add: is_spike_def normalized_deviation_def LATENCY_SPIKE_THRESHOLD_def
        JITTER_THRESHOLD_STD_def)
  have b: "round_trip_time s = 500 \<and> normalized_deviation p s \<le> 5 / 2 \<longrightarrow> \<not> is_spike p s"
    by (simp add: is_spike_def LATENCY_SPIKE_THRESHOLD_def JITTER_THRESHOLD_STD_def)
  have c: "normalized_deviation p s = 5 / 2 \<and> round_trip_time s \<le> 500 \<longrightarrow> \<not> is_spike p s"
    by (simp add: is_spike_def LATENCY_SPIKE_THRESHOLD_def JITTER_THRESHOLD_STD_def)
  have d: "baseline_rtt p \<noteq> 0 \<longrightarrow>
        spike_timestamps (snd (analyze_jitter p s)) =
          (if is_spike p s
           then filter (\<lambda>ts. ts > hs_timestamp s - 60) (spike_timestamps p @ [hs_timestamp s])
           else spike_timestamps p)"
    by (simp add: analyze_jitter_spikes record_spike_def Let_def SPIKE_WINDOW_def)
  from a b c d show ?thesis by blast
qed

theorem spike_iff_strictly_above_thresholds_witness:
  "round_trip_time (demo_sample 500) = 500
   \<and> normalized_deviation (demo_latency_profile 490 10 []) (demo_sample 500) \<le> 5 / 2
   \<and> \<not> is_spike (demo_latency_profile 490 10 []) (demo_sample 500)
   \<and> normalized_deviation (demo_latency_profile 100 9 []) (demo_sample 125) = 5 / 2
   \<and> round_trip_time (demo_sample 125) \<le> 500
   \<and> \<not> is_spike (demo_latency_profile 100 9 []) (demo_sample 125)
   \<and> baseline_rtt (demo_latency_profile 100 9 []) \<noteq> 0
   \<and> is_spike (demo_latency_profile 100 9 []) (demo_sample 501)
   \<and> spike_timestamps (snd (analyze_jitter (demo_latency_profile 100 9 []) (demo_sample 501))) = [1000]"
proof -
  have h1: "round_trip_time (demo_sample 500) = 500
      \<and> normalized_deviation (demo_latency_profile 490 10 []) (demo_sample 500) \<le> 5 / 2"
    by (simp add: normalized_deviation_def demo_latency_profile_def demo_sample_def)
  have h2: "normalized_deviation (demo_latency_profile 100 9 []) (demo_sample 125) = 5 / 2
      \<and> round_trip_time (demo_sample 125) \<le> 500"
    by (simp add: normalized_deviation_def demo_latency_profile_def demo_sample_def)
  have h3: "baseline_rtt (demo_latency_profile 100 9 []) \<noteq> 0"
    by (simp add: demo_latency_profile_def)
  have h4: "round_trip_time (demo_sample 501) > 500"
    by (simp add: demo_sample_def)
  have v: "hs_timestamp (demo_sample 501) = 1000" "spike_timestamps (demo_latency_profile 100 9 []) = []"
    by (simp_all add: demo_sample_def demo_latency_profile_def)
  note t1 = spike_iff_strictly_above_thresholds [of "demo_latency_profile 490 10 []" "demo_sample 500"]
  note t2 = spike_iff_strictly_above_thresholds [of "demo_latency_profile 100 9 []" "demo_sample 125"]
  note t3 = spike_iff_strictly_above_thresholds [of "demo_latency_profile 100 9 []" "demo_sample 501"]
  from t1 h1 have a: "\<not> is_spike (demo_latency_profile 490 10 []) (demo_sample 500)"
    by blast
  from t2 h2 have b: "\<not> is_spike (demo_latency_profile 100 9 []) (demo_sample 125)"
    by blast
  from t3 h4 have c: "is_spike (demo_latency_profile 100 9 []) (demo_sample 501)"
    by blast
  from t3 h3 c have "spike_timestamps (snd (analyze_jitter (demo_latency_profile 100 9 []) (demo_sample 501)))
      = filter (\<lambda>ts. ts > hs_timestamp (demo_sample 501) - 60)
          (spike_timestamps (demo_latency_profile 100 9 []) @ [hs_timestamp (demo_sample 501)])"
    by presburger
  then have d: "spike_timestamps (snd (analyze_jitter (demo_latency_profile 100 9 []) (demo_sample 501))) = [1000]"
    by (simp add: v)
  from h1 h2 h3 a b c d show ?thesis by blast
qed

lemma record_spike_counters:
  assumes "0 \<le> spikes_during_critical p" "spikes_during_critical p \<le> total_critical_moments p"
  shows "0 \<le> spikes_during_critical (record_spike p s)
     \<and> spikes_during_critical (record_spike p s) \<le> total_critical_moments (record_spike p s)"
  using assms by (simp add: record_spike_def Let_def)

lemma calculate_jitter_score_clamp:
  assumes "0 \<le> spikes_during_critical p" "spikes_during_critical p \<le> total_critical_moments p"
  shows "calculate_jitter_score p nd =
     clamp 0 (min 30 (\<bar>nd\<bar> * 10) + min 30 (of_nat (length (spike_timestamps p)) * 5)
              + of_int (spikes_during_critical p) / of_int (max 1 (total_critical_moments p)) * 40) 100"
proof (cases "total_critical_moments p > 0")
  case True
  then have m: "max 1 (total_critical_moments p) = total_critical_moments p" by simp
  have r: "0 \<le> (of_int (spikes_during_critical p) :: rat) / of_int (total_critical_moments p) * 40"
    using assms True by simp
  have n1: "0 \<le> min 30 (\<bar>nd\<bar> * 10)" by simp
  have n2: "(0::rat) \<le> min 30 (of_nat (length (spike_timestamps p)) * 5)" by simp
  from n1 n2 r have "0 \<le> min 30 (\<bar>nd\<bar> * 10) + min 30 (of_nat (length (spike_timestamps p)) * 5)
      + of_int (spikes_during_critical p) / of_int (total_critical_moments p) * 40"
    by linarith
  then show ?thesis
    using True by (simp add: calculate_jitter_score_def clamp_def Let_def m)
next
  case False
  with assms have z: "total_critical_moments p = 0" "spikes_during_critical p = 0" by simp_all
  have n1: "0 \<le> min 30 (\<bar>nd\<bar> * 10)" by simp
  have n2: "(0::rat) \<le> min 30 (of_nat (length (spike_timestamps p)) * 5)" by simp
  from n1 n2 have "0 \<le> min 30 (\<bar>nd\<bar> * 10) + min 30 (of_nat (length (spike_timestamps p)) * 5)"
    by linarith
  then show ?thesis
    by (simp add: calculate_jitter_score_def clamp_def Let_def z)
qed


lemma demo_eval_50:
  "jitter_score (fst (analyze_jitter (demo_latency_profile 100 9 []) (demo_sample 150))) = 35
   \<and> current_jitter (fst (analyze_jitter (demo_latency_profile 100 9 []) (demo_sample 150))) = 5
   \<and> spikes_in_window (snd (analyze_jitter (demo_latency_profile 100 9 []) (demo_sample 150)))
        (hs_timestamp (demo_sample 150)) = 1
   \<and> spikes_during_critical (snd (analyze_jitter (demo_latency_profile 100 9 []) (demo_sample 150))) = 0
   \<and> total_critical_moments (snd (analyze_jitter (demo_latency_profile 100 9 []) (demo_sample 150))) = 0"
  by (simp add: analyze_jitter_def record_spike_def is_spike_def normalized_deviation_def
      calculate_jitter_score_def demo_latency_profile_def demo_sample_def spikes_in_window_def
      LATENCY_SPIKE_THRESHOLD_def JITTER_THRESHOLD_STD_def SPIKE_WINDOW_def
      MAX_SPIKES_BEFORE_FLAG_def is_critical_moment_def Let_def)

lemma demo_eval_stale:
  "jitter_score (fst (analyze_jitter (demo_latency_profile 100 9 [0]) (demo_sample 100))) = 5
   \<and> current_jitter (fst (analyze_jitter (demo_latency_profile 100 9 [0]) (demo_sample 100))) = 0
   \<and> spikes_in_window (snd (analyze_jitter (demo_latency_profile 100 9 [0]) (demo_sample 100)))
        (hs_timestamp (demo_sample 100)) = 0
   \<and> spikes_during_critical (snd (analyze_jitter (demo_latency_profile 100 9 [0]) (demo_sample 100))) = 0
   \<and> total_critical_moments (snd (analyze_jitter (demo_latency_profile 100 9 [0]) (demo_sample 100))) = 0"
  by (simp add: analyze_jitter_def record_spike_def is_spike_def normalized_deviation_def
      calculate_jitter_score_def demo_latency_profile_def demo_sample_def spikes_in_window_def
      LATENCY_SPIKE_THRESHOLD_def JITTER_THRESHOLD_STD_def SPIKE_WINDOW_def
      MAX_SPIKES_BEFORE_FLAG_def is_critical_moment_def Let_def)

text \<open>
  Claim C7 says that the score before the +30 adjustment is
  clamp(0, |dev| * 10 + spikes * 5 + (crit_spikes / max(1, crit_total)) * 40, 100), with
  spikes the number of spike timestamps in the 60 s window. On the code, a sample with
  normalised deviation 5 on a profile without earlier spikes scores 35 where the formula
  gives 55, because the deviation term is capped at 30; and a sample at the baseline,
  1000 s after the only recorded spike, scores 5 where the formula, with no spike in the
  window, gives 0, because the old timestamp is still in the list that is counted.
\<close>

theorem jitter_score_formula_counterexample:
  "baseline_rtt (demo_latency_profile 100 9 []) \<noteq> 0
   \<and> jitter_score (fst (analyze_jitter (demo_latency_profile 100 9 []) (demo_sample 150))) = 35
   \<and> spec_jitter_score
        (current_jitter (fst (analyze_jitter (demo_latency_profile 100 9 []) (demo_sample 150))))
        (spikes_in_window (snd (analyze_jitter (demo_latency_profile 100 9 []) (demo_sample 150)))
           (hs_timestamp (demo_sample 150)))
        (spikes_during_critical (snd (analyze_jitter (demo_latency_profile 100 9 []) (demo_sample 150))))
        (total_critical_moments (snd (analyze_jitter (demo_latency_profile 100 9 []) (demo_sample 150))))
      = 55
   \<and> baseline_rtt (demo_latency_profile 100 9 [0]) \<noteq> 0
   \<and> jitter_score (fst (analyze_jitter (demo_latency_profile 100 9 [0]) (demo_sample 100))) = 5
   \<and> spec_jitter_score
        (current_jitter (fst (analyze_jitter (demo_latency_profile 100 9 [0]) (demo_sample 100))))
        (spikes_in_window (snd (analyze_jitter (demo_latency_profile 100 9 [0]) (demo_sample 100)))
           (hs_timestamp (demo_sample 100)))
        (spikes_during_critical (snd (analyze_jitter (demo_latency_profile 100 9 [0]) (demo_sample 100))))
        (total_critical_moments (snd (analyze_jitter (demo_latency_profile 100 9 [0]) (demo_sample 100))))
      = 0"
proof -
  have b: "baseline_rtt (demo_latency_profile 100 9 xs) \<noteq> 0" for xs
    by (simp add: demo_latency_profile_def)
  have s1: "spec_jitter_score 5 1 0 0 = 55"
    by (simp add: spec_jitter_score_def clamp_def)
  have s2: "spec_jitter_score 0 0 0 0 = 0"
    by (simp add: spec_jitter_score_def clamp_def)
  from b demo_eval_50 demo_eval_stale s1 s2 show ?thesis
    by simp
qed

text \<open>
  When the sample is a spike the list has just been pruned, and otherwise it is the list
  of the profile: if that holds no timestamp older than the window, the list counted by
  the score is the list of the spikes in the window.
\<close>

lemma record_spike_window:
  assumes "is_spike p s \<or> (\<forall>ts\<in>set (spike_timestamps p). ts > hs_timestamp s - 60)"
  shows "length (spike_timestamps (record_spike p s)) = spikes_in_window (record_spike p s) (hs_timestamp s)"
proof (cases "is_spike p s")
  case True
  then show ?thesis
    by (simp add: record_spike_def spikes_in_window_def Let_def)
next
  case False
  with assms have "\<forall>ts\<in>set (spike_timestamps p). ts > hs_timestamp s - 60"
    by blast
  then have "filter (\<lambda>ts. ts > hs_timestamp s - 60) (spike_timestamps p) = spike_timestamps p"
    by (simp add: filter_id_conv)
  with False show ?thesis
    by (simp add: record_spike_def spikes_in_window_def Let_def SPIKE_WINDOW_def)
qed

lemma demo_eval_fresh:
  "jitter_score (fst (analyze_jitter (demo_latency_profile 100 9 [990]) (demo_sample 100))) = 5
   \<and> spikes_in_window (snd (analyze_jitter (demo_latency_profile 100 9 [990]) (demo_sample 100)))
        (hs_timestamp (demo_sample 100)) = 1"
  by (simp add: analyze_jitter_def record_spike_def is_spike_def normalized_deviation_def
      calculate_jitter_score_def demo_latency_profile_def demo_sample_def spikes_in_window_def
      LATENCY_SPIKE_THRESHOLD_def JITTER_THRESHOLD_STD_def SPIKE_WINDOW_def
      MAX_SPIKES_BEFORE_FLAG_def is_critical_moment_def Let_def)

text \<open>
  Claim C7, amended. For a latency profile with an established baseline and critical
  counters with 0 <= crit_spikes <= crit_total, and a heartbeat sample that is itself a
  spike or arrives while no stored spike timestamp is older than the 60 s window, the
  score computed for the sample before the +30 adjustment is
  clamp(0, min(30, |dev| * 10) + min(30, spikes * 5) +
  (crit_spikes / max(1, crit_total)) * 40, 100), where spikes is the number of spike
  timestamps in the 60 s window: the deviation term and the spike term are each capped at
  30. The reported score is that value, or min(100, value + 30) under the
  suspicious-timing pattern.
\<close>

theorem jitter_score_capped_formula:
  assumes "baseline_rtt p \<noteq> 0"
    and "0 \<le> spikes_during_critical p"
    and "spikes_during_critical p \<le> total_critical_moments p"
    and "is_spike p s \<or> (\<forall>ts\<in>set (spike_timestamps p). ts > hs_timestamp s - 60)"
  shows "let a = fst (analyze_jitter p s);
             p' = snd (analyze_jitter p s);
             dev = (round_trip_time s - baseline_rtt p) / (baseline_std p + 1);
             base = clamp 0 (min 30 (\<bar>dev\<bar> * 10)
                             + min 30 (of_nat (spikes_in_window p' (hs_timestamp s)) * 5)
                             + of_int (spikes_during_critical p')
                                 / of_int (max 1 (total_critical_moments p')) * 40) 100
         in calculate_jitter_score (record_spike p s) dev = base
            \<and> jitter_score a =
                (if total_critical_moments p' \<ge> 5
                    \<and> of_int (spikes_during_critical p') / of_int (total_critical_moments p') > (6 / 10 :: rat)
                 then min 100 (base + 30) else base)
            \<and> 0 \<le> base \<and> base \<le> 100
            \<and> 0 \<le> spikes_during_critical p'
            \<and> spikes_during_critical p' \<le> total_critical_moments p'"
proof -
  define p1 where "p1 = record_spike p s"
  define dev where "dev = (round_trip_time s - baseline_rtt p) / (baseline_std p + 1)"
  define base where "base = clamp 0 (min 30 (\<bar>dev\<bar> * 10)
                             + min 30 (of_nat (spikes_in_window p1 (hs_timestamp s)) * 5)
                             + of_int (spikes_during_critical p1)
                                 / of_int (max 1 (total_critical_moments p1)) * 40) 100"
  have inv: "0 \<le> spikes_during_critical p1" "spikes_during_critical p1 \<le> total_critical_moments p1"
    using record_spike_counters [OF assms(2,3), of s] by (simp_all add: p1_def)
  have win: "length (spike_timestamps p1) = spikes_in_window p1 (hs_timestamp s)"
    unfolding p1_def by (rule record_spike_window [OF assms(4)])
  have sc: "calculate_jitter_score p1 dev = base"
    unfolding base_def win [symmetric] by (rule calculate_jitter_score_clamp [OF inv])
  have f: "spike_timestamps (snd (analyze_jitter p s)) = spike_timestamps p1"
    "spikes_during_critical (snd (analyze_jitter p s)) = spikes_during_critical p1"
    "total_critical_moments (snd (analyze_jitter p s)) = total_critical_moments p1"
    using analyze_jitter_spikes [OF assms(1), of s] by (simp_all add: p1_def)
  have fw: "spikes_in_window (snd (analyze_jitter p s)) (hs_timestamp s)
      = spikes_in_window p1 (hs_timestamp s)"
    by (simp add: spikes_in_window_def f(1))
  have js: "jitter_score (fst (analyze_jitter p s)) =
                (if total_critical_moments p1 \<ge> 5
                    \<and> of_int (spikes_during_critical p1) / of_int (total_critical_moments p1) > (6 / 10 :: rat)
                 then min 100 (base + 30) else base)"
    using assms(1) sc
    by (simp add: analyze_jitter_def Let_def p1_def [symmetric] normalized_deviation_def
        dev_def [symmetric])
  have rng: "0 \<le> base" "base \<le> 100"
    by (simp_all add: base_def clamp_def)
  show ?thesis
    unfolding Let_def f fw p1_def [symmetric] dev_def [symmetric]
    unfolding base_def [symmetric]
    using sc js rng inv by blast
qed

theorem jitter_score_capped_formula_witness:
  "baseline_rtt (demo_latency_profile 100 9 []) \<noteq> 0
   \<and> 0 \<le> spikes_during_critical (demo_latency_profile 100 9 [])
   \<and> spikes_during_critical (demo_latency_profile 100 9 []) \<le> total_critical_moments (demo_latency_profile 100 9 [])
   \<and> is_spike (demo_latency_profile 100 9 []) (demo_sample 150)
   \<and> jitter_score (fst (analyze_jitter (demo_latency_profile 100 9 []) (demo_sample 150))) = 35
   \<and> calculate_jitter_score (record_spike (demo_latency_profile 100 9 []) (demo_sample 150)) 5 = 35
   \<and> baseline_rtt (demo_latency_profile 100 9 [990]) \<noteq> 0
   \<and> 0 \<le> spikes_during_critical (demo_latency_profile 100 9 [990])
   \<and> spikes_during_critical (demo_latency_profile 100 9 [990])
        \<le> total_critical_moments (demo_latency_profile 100 9 [990])
   \<and> spike_timestamps (demo_latency_profile 100 9 [990]) = [990]
   \<and> 990 > hs_timestamp (demo_sample 100) - 60
   \<and> calculate_jitter_score (record_spike (demo_latency_profile 100 9 [990]) (demo_sample 100)) 0 = 5"
proof -
  have h: "baseline_rtt (demo_latency_profile 100 9 xs) \<noteq> 0"
    "0 \<le> spikes_during_critical (demo_latency_profile 100 9 xs)"
    "spikes_during_critical (demo_latency_profile 100 9 xs) \<le> total_critical_moments (demo_latency_profile 100 9 xs)"
    for xs
    by (simp_all add: demo_latency_profile_def)
  have sp: "is_spike (demo_latency_profile 100 9 []) (demo_sample 150)"
    by (simp add: is_spike_def normalized_deviation_def demo_latency_profile_def demo_sample_def
        LATENCY_SPIKE_THRESHOLD_def JITTER_THRESHOLD_STD_def)
  then have w1: "is_spike (demo_latency_profile 100 9 []) (demo_sample 150)
      \<or> (\<forall>ts\<in>set (spike_timestamps (demo_latency_profile 100 9 [])). ts > hs_timestamp (demo_sample 150) - 60)"
    by blast
  have fr: "\<forall>ts\<in>set (spike_timestamps (demo_latency_profile 100 9 [990])). ts > hs_timestamp (demo_sample 100) - 60"
    by (simp add: demo_latency_profile_def demo_sample_def)
  then have w2: "is_spike (demo_latency_profile 100 9 [990]) (demo_sample 100)
      \<or> (\<forall>ts\<in>set (spike_timestamps (demo_latency_profile 100 9 [990])). ts > hs_timestamp (demo_sample 100) - 60)"
    by blast
  have v1: "(round_trip_time (demo_sample 150) - baseline_rtt (demo_latency_profile 100 9 []))
        / (baseline_std (demo_latency_profile 100 9 []) + 1) = 5"
    by (simp add: demo_latency_profile_def demo_sample_def)
  have v2: "(round_trip_time (demo_sample 100) - baseline_rtt (demo_latency_profile 100 9 [990]))
        / (baseline_std (demo_latency_profile 100 9 [990]) + 1) = 0"
    by (simp add: demo_latency_profile_def demo_sample_def)
  have e2: "spikes_during_critical (snd (analyze_jitter (demo_latency_profile 100 9 [990]) (demo_sample 100))) = 0"
    "total_critical_moments (snd (analyze_jitter (demo_latency_profile 100 9 [990]) (demo_sample 100))) = 0"
    by (simp_all add: analyze_jitter_spikes h record_spike_def is_spike_def normalized_deviation_def
        demo_latency_profile_def demo_sample_def LATENCY_SPIKE_THRESHOLD_def JITTER_THRESHOLD_STD_def
        is_critical_moment_def Let_def)
  have c1: "clamp 0 (min 30 (\<bar>5\<bar> * 10) + min 30 (of_nat 1 * 5)
              + of_int 0 / of_int (max 1 0) * 40) 100 = 35"
    by (simp add: clamp_def)
  have c2: "clamp 0 (min 30 (\<bar>0\<bar> * 10) + min 30 (of_nat 1 * 5)
              + of_int 0 / of_int (max 1 0) * 40) 100 = 5"
    by (simp add: clamp_def)
  from jitter_score_capped_formula [OF h [of "[]"] w1]
  have a: "calculate_jitter_score (record_spike (demo_latency_profile 100 9 []) (demo_sample 150)) 5 = 35
      \<and> jitter_score (fst (analyze_jitter (demo_latency_profile 100 9 []) (demo_sample 150))) = 35"
    unfolding Let_def v1 using demo_eval_50 c1 by simp
  from jitter_score_capped_formula [OF h [of "[990]"] w2]
  have b: "calculate_jitter_score (record_spike (demo_latency_profile 100 9 [990]) (demo_sample 100)) 0 = 5"
    unfolding Let_def v2 using demo_eval_fresh e2 c2 by simp
  have st: "spike_timestamps (demo_latency_profile 100 9 [990]) = [990]"
    "990 > hs_timestamp (demo_sample 100) - 60"
    by (simp_all add: demo_latency_profile_def demo_sample_def)
  from h [of "[]"] h [of "[990]"] sp st a b show ?thesis by blast
qed

end
